theory Spec2Isabelle
  imports Complex_Main "HOL-Library.Word" "HOL-Library.AList"
begin

section \<open>JavaScript strings and numbers\<close>

text \<open>
  A JavaScript string is modelled as a \<^typ>\<open>string\<close>; one \<^typ>\<open>char\<close> stands for one
  code unit, so only code units below 256 are represented. \<open>startsWith\<close> is the
  prefix test and \<open>str_includes\<close> is \<open>String.prototype.includes\<close>, the substring test.
  \<open>toLowerCase\<close> and \<open>toUpperCase\<close> change the ASCII letters only.
\<close>

fun startsWith :: "string \<Rightarrow> string \<Rightarrow> bool" where
  "startsWith s [] = True"
| "startsWith [] (k # ks) = False"
| "startsWith (c # cs) (k # ks) = (c = k \<and> startsWith cs ks)"

fun str_includes :: "string \<Rightarrow> string \<Rightarrow> bool" where
  "str_includes [] k = (k = [])"
| "str_includes (c # cs) k = (startsWith (c # cs) k \<or> str_includes cs k)"

definition lowerChar :: "char \<Rightarrow> char" where
  "lowerChar c =
     (let n = of_char c :: nat in if 65 \<le> n \<and> n \<le> 90 then char_of (n + 32) else c)"

definition upperChar :: "char \<Rightarrow> char" where
  "upperChar c =
     (let n = of_char c :: nat in if 97 \<le> n \<and> n \<le> 122 then char_of (n - 32) else c)"

definition toLowerCase :: "string \<Rightarrow> string" where
  "toLowerCase s = map lowerChar s"

definition toUpperCase :: "string \<Rightarrow> string" where
  "toUpperCase s = map upperChar s"

text \<open>
  A JavaScript number, as far as the handlers below look at it: an integer or \<open>NaN\<close>.
  Every comparison with \<open>NaN\<close> is false and \<open>NaN\<close> is falsy, as is \<open>0\<close>.
\<close>

datatype jsnum = Num int | NaN

fun js_less :: "jsnum \<Rightarrow> jsnum \<Rightarrow> bool" where
  "js_less (Num a) (Num b) = (a < b)"
| "js_less _ _ = False"

fun truthy_num :: "jsnum \<Rightarrow> bool" where
  "truthy_num (Num n) = (n \<noteq> 0)"
| "truthy_num NaN = False"

definition isDigit :: "char \<Rightarrow> bool" where
  "isDigit c = (let n = of_char c :: nat in 48 \<le> n \<and> n \<le> 57)"

definition isWhiteSpace :: "char \<Rightarrow> bool" where
  "isWhiteSpace c = (of_char c \<in> {9, 10, 11, 12, 13, 32, 160 :: nat})"

definition digitsValue :: "string \<Rightarrow> int" where
  "digitsValue ds = foldl (\<lambda>acc c. 10 * acc + (int (of_char c) - 48)) 0 ds"

text \<open>
  \<open>parseInt(s, 10)\<close>: leading white space is skipped, one sign is read, then the longest
  run of decimal digits; no digit at all gives \<open>NaN\<close>.
\<close>

definition parseDigits :: "string \<Rightarrow> jsnum" where
  "parseDigits s =
     (let ds = takeWhile isDigit s in if ds = [] then NaN else Num (digitsValue ds))"

definition parseInt :: "string \<Rightarrow> jsnum" where
  "parseInt s =
     (case dropWhile isWhiteSpace s of
        [] \<Rightarrow> NaN
      | c # cs \<Rightarrow>
          if c = CHR ''-'' then
            (case parseDigits cs of Num n \<Rightarrow> Num (- n) | NaN \<Rightarrow> NaN)
          else if c = CHR ''+'' then parseDigits cs
          else parseDigits (c # cs))"

section \<open>lib/errorHandler.js\<close>

datatype ErrorTypes =
  CAMERA_ERROR | AR_ERROR | QR_ERROR | NETWORK_ERROR | PERMISSION_ERROR | BROWSER_ERROR
  | VALIDATION_ERROR

datatype ErrorSeverity = LOW | MEDIUM | HIGH | CRITICAL

text \<open>
  A thrown value is either a plain \<open>Error\<close> (its \<open>name\<close> and \<open>message\<close>) or an
  \<open>ARError\<close>, which carries the type, severity and details given to its constructor.
\<close>

datatype js_error =
  PlainError string string
  | ARError string ErrorTypes ErrorSeverity "(string \<times> string) list"

fun error_name :: "js_error \<Rightarrow> string" where
  "error_name (PlainError n m) = n"
| "error_name (ARError m t s d) = ''ARError''"

fun error_message :: "js_error \<Rightarrow> string" where
  "error_message (PlainError n m) = m"
| "error_message (ARError m t s d) = m"

fun isARError :: "js_error \<Rightarrow> bool" where
  "isARError (PlainError n m) = False"
| "isARError (ARError m t s d) = True"

definition categorizeError :: "js_error \<Rightarrow> ErrorTypes" where
  "categorizeError error =
     (let message = toLowerCase (error_message error) in
      if str_includes message ''camera'' \<or> str_includes message ''media''
         \<or> str_includes message ''video''
      then CAMERA_ERROR
      else if str_includes message ''ar'' \<or> str_includes message ''marker''
              \<or> str_includes message ''tracking''
      then AR_ERROR
      else if str_includes message ''qr'' \<or> str_includes message ''code'' then QR_ERROR
      else if str_includes message ''permission'' \<or> str_includes message ''denied''
      then PERMISSION_ERROR
      else if str_includes message ''network'' \<or> str_includes message ''fetch''
              \<or> str_includes message ''connection''
      then NETWORK_ERROR
      else if str_includes message ''browser'' \<or> str_includes message ''unsupported''
      then BROWSER_ERROR
      else VALIDATION_ERROR)"

definition determineSeverity :: "js_error \<Rightarrow> ErrorSeverity" where
  "determineSeverity error =
     (let message = toLowerCase (error_message error) in
      if str_includes message ''critical'' \<or> str_includes message ''fatal'' then CRITICAL
      else if str_includes message ''permission'' \<or> str_includes message ''camera''
              \<or> str_includes message ''ar''
      then HIGH
      else if str_includes message ''network'' \<or> str_includes message ''connection''
      then MEDIUM
      else LOW)"

text \<open>
  The processed record. The identifier (time and random suffix) and the time stamp come
  from the environment and are passed in; the stack trace and the \<open>userAgent\<close> and
  \<open>url\<close> entries of the context are left out. An object is a list of key and value
  pairs, and spreading one object after another is appending the lists.
\<close>

record processed_error =
  pe_id :: string
  pe_message :: string
  pe_type :: ErrorTypes
  pe_severity :: ErrorSeverity
  pe_timestamp :: nat
  pe_context :: "(string \<times> string) list"

definition processError ::
  "string \<Rightarrow> nat \<Rightarrow> js_error \<Rightarrow> (string \<times> string) list \<Rightarrow> processed_error" where
  "processError eid now error context =
     \<lparr> pe_id = eid,
       pe_message = error_message error,
       pe_type = (case error of ARError m t s d \<Rightarrow> t | _ \<Rightarrow> categorizeError error),
       pe_severity = (case error of ARError m t s d \<Rightarrow> s | _ \<Rightarrow> determineSeverity error),
       pe_timestamp = now,
       pe_context = context @ (case error of ARError m t s d \<Rightarrow> d | _ \<Rightarrow> []) \<rparr>"

text \<open>The handler's log keeps the last \<open>maxLogSize = 100\<close> processed errors.\<close>

definition maxLogSize :: nat where
  "maxLogSize = 100"

definition logError :: "processed_error list \<Rightarrow> processed_error \<Rightarrow> processed_error list" where
  "logError errorLog pe =
     (let l = errorLog @ [pe] in if length l > maxLogSize then tl l else l)"

definition handleError ::
  "string \<Rightarrow> nat \<Rightarrow> processed_error list \<Rightarrow> js_error \<Rightarrow> (string \<times> string) list
     \<Rightarrow> processed_error \<times> processed_error list" where
  "handleError eid now errorLog error context =
     (let processedError = processError eid now error context
      in (processedError, logError errorLog processedError))"

definition handleCameraError ::
  "string \<Rightarrow> nat \<Rightarrow> processed_error list \<Rightarrow> js_error \<Rightarrow> (string \<times> string) list
     \<Rightarrow> processed_error \<times> processed_error list" where
  "handleCameraError eid now errorLog error context =
     handleError eid now errorLog
       (ARError (error_message error) CAMERA_ERROR HIGH
          ((''originalError'', error_name error) # context))
       context"

definition handlePermissionError ::
  "string \<Rightarrow> nat \<Rightarrow> processed_error list \<Rightarrow> js_error \<Rightarrow> (string \<times> string) list
     \<Rightarrow> processed_error \<times> processed_error list" where
  "handlePermissionError eid now errorLog error context =
     handleError eid now errorLog
       (ARError (error_message error) PERMISSION_ERROR CRITICAL
          ((''originalError'', error_name error) # context))
       context"

definition categorizationKeywords :: "string list" where
  "categorizationKeywords =
     [''camera'', ''media'', ''video'', ''ar'', ''marker'', ''tracking'', ''qr'', ''code'',
      ''permission'', ''denied'', ''network'', ''fetch'', ''connection'', ''browser'',
      ''unsupported'']"

definition severityKeywords :: "string list" where
  "severityKeywords =
     [''critical'', ''fatal'', ''permission'', ''camera'', ''ar'', ''network'', ''connection'']"

definition noKeyword :: "string \<Rightarrow> bool" where
  "noKeyword m =
     list_all (\<lambda>k. \<not> str_includes (toLowerCase m) k)
       (categorizationKeywords @ severityKeywords)"

section \<open>pages/api/qr-code.js\<close>

text \<open>
  The configuration object handed to the encoder. \<open>QR_CONFIG\<close> is the default; a request
  overrides the fields it gives (\<open>{ ...QR_CONFIG, ...customConfig }\<close>).
\<close>

record qr_config =
  errorCorrectionLevel :: string
  ctype :: string
  quality :: rat
  margin :: jsnum
  color_dark :: string
  color_light :: string
  width :: jsnum
  scale :: jsnum

definition QR_CONFIG :: qr_config where
  "QR_CONFIG =
     \<lparr> errorCorrectionLevel = ''H'', ctype = ''image/png'', quality = 92 / 100,
       margin = Num 2, color_dark = ''#000000'', color_light = ''#FFFFFF'',
       width = Num 512, scale = Num 8 \<rparr>"

record custom_config =
  c_errorCorrectionLevel :: "string option"
  c_ctype :: "string option"
  c_quality :: "rat option"
  c_margin :: "jsnum option"
  c_color_dark :: "string option"
  c_color_light :: "string option"
  c_width :: "jsnum option"
  c_scale :: "jsnum option"

definition empty_config :: custom_config where
  "empty_config =
     \<lparr> c_errorCorrectionLevel = None, c_ctype = None, c_quality = None, c_margin = None,
       c_color_dark = None, c_color_light = None, c_width = None, c_scale = None \<rparr>"

definition or_default :: "'a option \<Rightarrow> 'a \<Rightarrow> 'a" where
  "or_default x d = (case x of None \<Rightarrow> d | Some v \<Rightarrow> v)"

definition merge_config :: "qr_config \<Rightarrow> custom_config \<Rightarrow> qr_config" where
  "merge_config d c =
     \<lparr> errorCorrectionLevel = or_default (c_errorCorrectionLevel c) (errorCorrectionLevel d),
       ctype = or_default (c_ctype c) (ctype d),
       quality = or_default (c_quality c) (quality d),
       margin = or_default (c_margin c) (margin d),
       color_dark = or_default (c_color_dark c) (color_dark d),
       color_light = or_default (c_color_light c) (color_light d),
       width = or_default (c_width c) (width d),
       scale = or_default (c_scale c) (scale d) \<rparr>"

text \<open>
  The request: its method, the query parameters the handler reads and the parsed body
  (absent when the request has none). String fields hold strings and the sizes of a
  body's configuration hold numbers: other JSON values are outside this model.
\<close>

record post_body =
  b_data :: "string option"
  b_url :: "string option"
  b_config :: "custom_config option"

record request =
  rmethod :: string
  q_data :: "string option"
  q_url :: "string option"
  q_size :: "string option"
  q_format :: "string option"
  q_errorLevel :: "string option"
  rbody :: "post_body option"

text \<open>\<open>a || b\<close> on strings that may be missing: the first one that is present and not empty.\<close>

definition str_or :: "string option \<Rightarrow> string \<Rightarrow> string" where
  "str_or a b = (case a of None \<Rightarrow> b | Some s \<Rightarrow> if s = [] then b else s)"

definition truthy_str :: "string option \<Rightarrow> bool" where
  "truthy_str a = (case a of None \<Rightarrow> False | Some s \<Rightarrow> s \<noteq> [])"

definition MAX_URL_LENGTH :: nat where
  "MAX_URL_LENGTH = 2048"

text \<open>
  \<open>URL_PATTERN = /^https?:\/\/.+/i\<close>: the letters in either case, an optional \<open>s\<close>, the
  two slashes and one more character that is not a line terminator.
\<close>

definition isLineTerminator :: "char \<Rightarrow> bool" where
  "isLineTerminator c = (of_char c \<in> {10, 13 :: nat})"

definition afterScheme :: "string \<Rightarrow> bool" where
  "afterScheme s =
     (startsWith s ''://'' \<and> (case drop 3 s of [] \<Rightarrow> False | c # cs \<Rightarrow> \<not> isLineTerminator c))"

definition URL_PATTERN_test :: "string \<Rightarrow> bool" where
  "URL_PATTERN_test s =
     (startsWith (toLowerCase (take 4 s)) ''http''
      \<and> (afterScheme (drop 4 s)
           \<or> (startsWith (toLowerCase (take 1 (drop 4 s))) ''s'' \<and> afterScheme (drop 5 s))))"

text \<open>
  The response: the status and what is sent. Header writes are not modelled. The encoder
  (\<open>QRCode.toString\<close> and \<open>QRCode.toBuffer\<close> of the \<open>qrcode\<close> package) is a parameter: it
  returns the image or the message of the error it throws. Besides the response the
  handler returns the list of encoder calls it made.
\<close>

datatype res_body =
  NoBody
  | MethodNotAllowed
  | MissingParameter
  | InvalidUrlFormat string
  | DataTooLong nat nat
  | InvalidSize string jsnum
  | InvalidErrorCorrectionLevel string
  | QRImage string
  | DataTooLongForQR
  | InvalidQRData string
  | GenerationFailed string

record response =
  status :: nat
  sent :: res_body

type_synonym encoder = "string \<Rightarrow> qr_config \<Rightarrow> string + string"

definition query_config :: "request \<Rightarrow> custom_config" where
  "query_config req =
     empty_config
       \<lparr> c_width := (if truthy_str (q_size req) then Some (parseInt (the (q_size req)))
                    else None),
         c_ctype := (if truthy_str (q_format req)
                     then Some (if the (q_format req) = ''svg'' then ''svg'' else ''image/png'')
                     else None),
         c_errorCorrectionLevel :=
           (if truthy_str (q_errorLevel req) then Some (toUpperCase (the (q_errorLevel req)))
            else None) \<rparr>"

definition catch_error :: "bool \<Rightarrow> string \<Rightarrow> response" where
  "catch_error dev msg =
     (if str_includes msg ''Input too long'' then \<lparr> status = 400, sent = DataTooLongForQR \<rparr>
      else if str_includes msg ''Invalid'' then \<lparr> status = 400, sent = InvalidQRData msg \<rparr>
      else \<lparr> status = 500,
             sent = GenerationFailed (if dev then msg else ''Internal server error'') \<rparr>)"

definition generate ::
  "encoder \<Rightarrow> bool \<Rightarrow> string \<Rightarrow> qr_config \<Rightarrow> response \<times> (string \<times> qr_config) list" where
  "generate enc dev qrData config =
     (let arg = (if ctype config = ''svg'' then config \<lparr> ctype := ''svg'' \<rparr> else config) in
      case enc qrData arg of
        Inl msg \<Rightarrow> (catch_error dev msg, [(qrData, arg)])
      | Inr qrCode \<Rightarrow> (\<lparr> status = 200, sent = QRImage qrCode \<rparr>, [(qrData, arg)]))"

definition validate_and_generate ::
  "encoder \<Rightarrow> bool \<Rightarrow> string \<Rightarrow> custom_config \<Rightarrow> response \<times> (string \<times> qr_config) list"
  where
  "validate_and_generate enc dev qrData customConfig =
     (if qrData = [] then (\<lparr> status = 400, sent = MissingParameter \<rparr>, [])
      else if startsWith qrData ''http'' \<and> \<not> URL_PATTERN_test qrData
      then (\<lparr> status = 400, sent = InvalidUrlFormat qrData \<rparr>, [])
      else if length qrData > MAX_URL_LENGTH
      then (\<lparr> status = 400, sent = DataTooLong MAX_URL_LENGTH (length qrData) \<rparr>, [])
      else
        let config = merge_config QR_CONFIG customConfig in
        if truthy_num (width config)
           \<and> (js_less (width config) (Num 64) \<or> js_less (Num 2048) (width config))
        then (\<lparr> status = 400, sent = InvalidSize ''64-2048 pixels'' (width config) \<rparr>, [])
        else if errorCorrectionLevel config \<noteq> []
                \<and> errorCorrectionLevel config \<notin> set [''L'', ''M'', ''Q'', ''H'']
        then (\<lparr> status = 400,
                sent = InvalidErrorCorrectionLevel (errorCorrectionLevel config) \<rparr>, [])
        else generate enc dev qrData config)"

definition handler ::
  "encoder \<Rightarrow> bool \<Rightarrow> request \<Rightarrow> response \<times> (string \<times> qr_config) list" where
  "handler enc dev req =
     (if rmethod req = ''OPTIONS'' then (\<lparr> status = 200, sent = NoBody \<rparr>, [])
      else if rmethod req = ''GET'' then
        validate_and_generate enc dev (str_or (q_data req) (str_or (q_url req) []))
          (query_config req)
      else if rmethod req = ''POST'' then
        (case rbody req of
           None \<Rightarrow>
             (catch_error dev ''Cannot read properties of undefined'', [])
         | Some body \<Rightarrow>
             validate_and_generate enc dev (str_or (b_data body) (str_or (b_url body) []))
               (or_default (b_config body) empty_config))
      else (\<lparr> status = 405, sent = MethodNotAllowed \<rparr>, []))"

text \<open>
  The content string of a request, what the handler binds to \<open>qrData\<close>, and the merged
  configuration. Only a \<open>GET\<close> request and a \<open>POST\<close> request with a body have them.
\<close>

definition content_of :: "request \<Rightarrow> string option" where
  "content_of req =
     (if rmethod req = ''GET'' then Some (str_or (q_data req) (str_or (q_url req) []))
      else if rmethod req = ''POST'' then
        (case rbody req of
           None \<Rightarrow> None
         | Some body \<Rightarrow> Some (str_or (b_data body) (str_or (b_url body) [])))
      else None)"

definition config_of :: "request \<Rightarrow> qr_config option" where
  "config_of req =
     (if rmethod req = ''GET'' then Some (merge_config QR_CONFIG (query_config req))
      else if rmethod req = ''POST'' then
        (case rbody req of
           None \<Rightarrow> None
         | Some body \<Rightarrow> Some (merge_config QR_CONFIG (or_default (b_config body) empty_config)))
      else None)"

text \<open>The checks on the content that come before the size check.\<close>

definition content_accepted :: "string \<Rightarrow> bool" where
  "content_accepted qrData =
     (qrData \<noteq> [] \<and> \<not> (startsWith qrData ''http'' \<and> \<not> URL_PATTERN_test qrData)
      \<and> length qrData \<le> MAX_URL_LENGTH)"

section \<open>lib/sessionManager.js\<close>

datatype SessionStates = INACTIVE | ACTIVE | AR_ACTIVE | COMPLETED | ERROR

text \<open>
  Times are milliseconds since the epoch, read from the clock by the caller and passed
  in. An interaction's \<open>type\<close> is a string (the manager also tracks \<open>page_hidden\<close> and
  \<open>page_visible\<close>, which are not in \<open>InteractionTypes\<close>), its \<open>data\<close> an object.
\<close>

type_synonym js_object = "(string \<times> string) list"

record interaction =
  i_id :: string
  i_sessionId :: "string option"
  i_type :: string
  i_timestamp :: nat
  i_data :: js_object

definition PAGE_VISIT :: string where "PAGE_VISIT = ''page_visit''"
definition AR_START :: string where "AR_START = ''ar_start''"
definition AR_END :: string where "AR_END = ''ar_end''"
definition ERROR_OCCURRED :: string where "ERROR_OCCURRED = ''error_occurred''"

text \<open>
  \<open>sessionData\<close> starts as the empty object; \<open>startSession\<close> fills in the environment
  snapshot and later calls add the remaining fields. A field that is not set is \<open>None\<close>.
\<close>

record session_data =
  sd_sessionId :: "string option"
  sd_startTime :: "nat option"
  sd_userAgent :: "string option"
  sd_language :: "string option"
  sd_screenSize :: "(nat \<times> nat \<times> nat) option"
  sd_url :: "string option"
  sd_referrer :: "string option"
  sd_endTime :: "nat option"
  sd_duration :: "int option"
  sd_interactionCount :: "nat option"
  sd_arStartTime :: "nat option"
  sd_arEndTime :: "nat option"
  sd_arDuration :: "int option"
  sd_hasErrors :: bool
  sd_errors :: "js_object list option"

definition empty_session_data :: session_data where
  "empty_session_data =
     \<lparr> sd_sessionId = None, sd_startTime = None, sd_userAgent = None, sd_language = None,
       sd_screenSize = None, sd_url = None, sd_referrer = None, sd_endTime = None,
       sd_duration = None, sd_interactionCount = None, sd_arStartTime = None,
       sd_arEndTime = None, sd_arDuration = None, sd_hasErrors = False, sd_errors = None \<rparr>"

text \<open>What \<open>saveSessionData\<close> writes under the key \<open>halloween_ar_session\<close>.\<close>

record session_info =
  si_sessionData :: session_data
  si_interactions :: "interaction list"
  si_sessionState :: SessionStates
  si_lastSaved :: nat

text \<open>
  The manager's fields, together with the two pieces of the browser it changes: the
  item in local storage and the pending timer. \<open>timeoutId\<close> is the handle the manager
  keeps, \<open>timer\<close> the time at which the browser will run the callback; listeners are
  called inside \<open>try\<close> and \<open>catch\<close> and are left out.
\<close>

record session_manager =
  sessionId :: "string option"
  sessionState :: SessionStates
  sessionData :: session_data
  interactions :: "interaction list"
  startTime :: "nat option"
  lastActivityTime :: "nat option"
  timeoutId :: "nat option"
  timer :: "nat option"
  localStorage :: "session_info option"

text \<open>
  The browser as the manager sees it: whether \<open>localStorage\<close> is defined, whether
  \<open>setItem\<close> throws (a full quota), and the values read from \<open>navigator\<close>, \<open>screen\<close>,
  \<open>window\<close> and \<open>document\<close>.
\<close>

record browser =
  storage_defined :: bool
  setItem_throws :: bool
  userAgent :: string
  language :: string
  screenSize :: "(nat \<times> nat \<times> nat) option"
  url :: string
  referrer :: string

definition sessionTimeout :: nat where
  "sessionTimeout = 30 * 60 * 1000"

definition new_manager :: session_manager where
  "new_manager =
     \<lparr> sessionId = None, sessionState = INACTIVE, sessionData = empty_session_data,
       interactions = [], startTime = None, lastActivityTime = None, timeoutId = None,
       timer = None, localStorage = None \<rparr>"

text \<open>\<open>xs.slice(-n)\<close> for a positive \<open>n\<close>: the last \<open>n\<close> elements, all of them if there are fewer.\<close>

definition slice_last :: "nat \<Rightarrow> 'a list \<Rightarrow> 'a list" where
  "slice_last n xs = drop (length xs - n) xs"

definition resetSessionTimeout :: "nat \<Rightarrow> session_manager \<Rightarrow> session_manager" where
  "resetSessionTimeout now m =
     m \<lparr> timeoutId := Some (now + sessionTimeout), timer := Some (now + sessionTimeout) \<rparr>"

definition saveSessionData :: "browser \<Rightarrow> nat \<Rightarrow> session_manager \<Rightarrow> session_manager" where
  "saveSessionData b now m =
     (if \<not> storage_defined b then m
      else if setItem_throws b then m
      else m \<lparr> localStorage :=
               Some \<lparr> si_sessionData = sessionData m,
                      si_interactions = slice_last 50 (interactions m),
                      si_sessionState = sessionState m,
                      si_lastSaved = now \<rparr> \<rparr>)"

definition endSession :: "browser \<Rightarrow> nat \<Rightarrow> session_manager \<Rightarrow> session_manager" where
  "endSession b now m =
     (if sessionState m = INACTIVE then m
      else
        let duration = int now - (case startTime m of None \<Rightarrow> 0 | Some t \<Rightarrow> int t);
            m1 = m \<lparr> sessionData := (sessionData m)
                       \<lparr> sd_endTime := Some now, sd_duration := Some duration,
                         sd_interactionCount := Some (length (interactions m)) \<rparr>,
                     sessionState := COMPLETED \<rparr>;
            m2 = (if timeoutId m1 \<noteq> None then m1 \<lparr> timeoutId := None, timer := None \<rparr>
                  else m1)
        in saveSessionData b now m2)"

definition handleSpecialInteractions ::
  "nat \<Rightarrow> string \<Rightarrow> js_object \<Rightarrow> session_manager \<Rightarrow> session_manager" where
  "handleSpecialInteractions now type data m =
     (if type = AR_START then
        m \<lparr> sessionState := AR_ACTIVE,
            sessionData := (sessionData m) \<lparr> sd_arStartTime := Some now \<rparr> \<rparr>
      else if type = AR_END then
        (if sessionState m = AR_ACTIVE then
           m \<lparr> sessionState := ACTIVE,
               sessionData := (sessionData m)
                 \<lparr> sd_arEndTime := Some now,
                   sd_arDuration :=
                     (case sd_arStartTime (sessionData m) of
                        None \<Rightarrow> sd_arDuration (sessionData m)
                      | Some t \<Rightarrow> Some (int now - int t)) \<rparr> \<rparr>
         else m)
      else if type = ERROR_OCCURRED then
        m \<lparr> sessionData := (sessionData m)
              \<lparr> sd_hasErrors := True,
                sd_errors := Some (or_default (sd_errors (sessionData m)) [] @ [data]) \<rparr> \<rparr>
      else m)"

text \<open>
  \<open>trackInteraction\<close>; \<open>iid\<close> is the identifier \<open>generateInteractionId\<close> builds from the
  clock and a random number.
\<close>

definition trackInteraction ::
  "browser \<Rightarrow> nat \<Rightarrow> string \<Rightarrow> string \<Rightarrow> js_object \<Rightarrow> session_manager \<Rightarrow> session_manager"
  where
  "trackInteraction b now iid type data m =
     (if sessionState m = INACTIVE then m
      else
        let interaction = \<lparr> i_id = iid, i_sessionId = sessionId m, i_type = type,
                            i_timestamp = now, i_data = data \<rparr>;
            m1 = m \<lparr> interactions := interactions m @ [interaction],
                     lastActivityTime := Some now \<rparr>;
            m2 = resetSessionTimeout now m1;
            m3 = saveSessionData b now m2
        in handleSpecialInteractions now type data m3)"

definition startSession ::
  "browser \<Rightarrow> nat \<Rightarrow> string \<Rightarrow> session_manager \<Rightarrow> session_manager" where
  "startSession b now iid m =
     (let m1 = m \<lparr> startTime := Some now, lastActivityTime := Some now,
                   sessionState := ACTIVE,
                   sessionData := empty_session_data
                     \<lparr> sd_sessionId := sessionId m, sd_startTime := Some now,
                       sd_userAgent := Some (userAgent b), sd_language := Some (language b),
                       sd_screenSize := screenSize b, sd_url := Some (url b),
                       sd_referrer := Some (referrer b) \<rparr> \<rparr>;
          m2 = trackInteraction b now iid PAGE_VISIT
                 [(''sessionStart'', ''true''), (''url'', url b)] m1;
          m3 = resetSessionTimeout now m2
      in saveSessionData b now m3)"

definition loadSessionData :: "browser \<Rightarrow> nat \<Rightarrow> session_manager \<Rightarrow> session_manager" where
  "loadSessionData b now m =
     (if \<not> storage_defined b then m
      else case localStorage m of
             None \<Rightarrow> m
           | Some sessionInfo \<Rightarrow>
               if int now - int (si_lastSaved sessionInfo) < 24 * (1000 * 60 * 60)
               then m \<lparr> interactions := si_interactions sessionInfo \<rparr>
               else m)"

text \<open>\<open>initialize\<close>, run by the constructor; \<open>sid\<close> is the generated session identifier.\<close>

definition initialize ::
  "browser \<Rightarrow> nat \<Rightarrow> string \<Rightarrow> string \<Rightarrow> session_manager \<Rightarrow> session_manager" where
  "initialize b now sid iid m =
     startSession b now iid (loadSessionData b now (m \<lparr> sessionId := Some sid \<rparr>))"

text \<open>The activity listener installed by \<open>setupActivityTracking\<close>.\<close>

definition updateActivity :: "nat \<Rightarrow> session_manager \<Rightarrow> session_manager" where
  "updateActivity now m = resetSessionTimeout now (m \<lparr> lastActivityTime := Some now \<rparr>)"

text \<open>
  The event loop at time \<open>now\<close>: a pending timer whose time has come is removed and its
  callback, \<open>endSession\<close>, runs.
\<close>

definition run_timer :: "browser \<Rightarrow> nat \<Rightarrow> session_manager \<Rightarrow> session_manager" where
  "run_timer b now m =
     (case timer m of
        None \<Rightarrow> m
      | Some due \<Rightarrow> if due \<le> now then endSession b now (m \<lparr> timer := None \<rparr>) else m)"

definition clearSessionData :: "browser \<Rightarrow> session_manager \<Rightarrow> session_manager" where
  "clearSessionData b m =
     (let m1 = m \<lparr> sessionData := empty_session_data, interactions := [] \<rparr>
      in if storage_defined b then m1 \<lparr> localStorage := None \<rparr> else m1)"

text \<open>The interaction count reported by \<open>getSessionStats\<close>.\<close>

definition stats_interactionCount :: "session_manager \<Rightarrow> nat" where
  "stats_interactionCount m = length (interactions m)"

text \<open>A run of tracked interactions: each is the time, the identifier, the type and the data.\<close>

fun track_all ::
  "browser \<Rightarrow> (nat \<times> string \<times> string \<times> js_object) list \<Rightarrow> session_manager
     \<Rightarrow> session_manager" where
  "track_all b [] m = m"
| "track_all b ((now, iid, type, data) # evs) m =
     track_all b evs (trackInteraction b now iid type data m)"

section \<open>pages/api/session.js\<close>

text \<open>
  The route keeps two maps in memory, from session identifiers to session records and to
  interaction lists. Of a session record only the last activity matters here.
\<close>

record api_interaction =
  ai_id :: string
  ai_sessionId :: string
  ai_type :: string
  ai_timestamp :: nat
  ai_data :: js_object
  ai_userAgent :: string
  ai_url :: string

record api_session =
  as_sessionId :: string
  as_state :: SessionStates
  as_startTime :: nat
  as_lastActivity :: nat

record api_store =
  sessions :: "string \<rightharpoonup> api_session"
  api_interactions :: "string \<rightharpoonup> api_interaction list"

definition maxInteractionsPerSession :: nat where
  "maxInteractionsPerSession = 100"

text \<open>\<open>obj.key || 'Unknown'\<close> on an object of strings.\<close>

definition field_or_unknown :: "js_object \<Rightarrow> string \<Rightarrow> string" where
  "field_or_unknown data key =
     (case map_of data key of
        None \<Rightarrow> ''Unknown''
      | Some v \<Rightarrow> if v = [] then ''Unknown'' else v)"

definition new_interaction ::
  "string \<Rightarrow> nat \<times> string \<times> string \<times> js_object \<Rightarrow> api_interaction" where
  "new_interaction sid ev =
     (case ev of (now, iid, type, data) \<Rightarrow>
        \<lparr> ai_id = iid, ai_sessionId = sid, ai_type = type, ai_timestamp = now,
          ai_data = data, ai_userAgent = field_or_unknown data ''userAgent'',
          ai_url = field_or_unknown data ''url'' \<rparr>)"

definition addInteractionToSession ::
  "nat \<Rightarrow> string \<Rightarrow> string \<Rightarrow> string \<Rightarrow> js_object \<Rightarrow> api_store
     \<Rightarrow> api_interaction \<times> api_store" where
  "addInteractionToSession now iid sid type data st =
     (let interaction = new_interaction sid (now, iid, type, data);
          pushed = or_default (api_interactions st sid) [] @ [interaction];
          sessionInteractions =
            (if length pushed > maxInteractionsPerSession
             then slice_last maxInteractionsPerSession pushed else pushed);
          st1 = st \<lparr> api_interactions := (api_interactions st)(sid \<mapsto> sessionInteractions) \<rparr>;
          st2 = (case sessions st1 sid of
                   None \<Rightarrow> st1
                 | Some session \<Rightarrow>
                     st1 \<lparr> sessions :=
                             (sessions st1)(sid \<mapsto> session \<lparr> as_lastActivity := now \<rparr>) \<rparr>)
      in (interaction, st2))"

text \<open>The interaction count reported by \<open>calculateSessionStats\<close>.\<close>

definition api_interactionCount :: "api_store \<Rightarrow> string \<Rightarrow> nat" where
  "api_interactionCount st sid = length (or_default (api_interactions st sid) [])"

fun add_all ::
  "string \<Rightarrow> (nat \<times> string \<times> string \<times> js_object) list \<Rightarrow> api_store \<Rightarrow> api_store" where
  "add_all sid [] st = st"
| "add_all sid ((now, iid, type, data) # evs) st =
     add_all sid evs (snd (addInteractionToSession now iid sid type data st))"

section \<open>lib/cameraUtils.js\<close>

datatype PermissionStates = GRANTED | DENIED | PROMPT | UNKNOWN

datatype StreamStates = STREAM_INACTIVE | STREAM_REQUESTING | STREAM_ACTIVE | STREAM_ERROR

text \<open>
  A media stream is named by a number. A constraint on a dimension or on the frame rate
  is its \<open>ideal\<close> value and, when given, its \<open>max\<close>.
\<close>

type_synonym media_stream = nat

record camera_options =
  o_facingMode :: "string option"
  o_width :: "nat option"
  o_height :: "nat option"
  o_frameRate :: "nat option"
  o_arOptimized :: bool

record supported_constraints =
  s_facingMode :: bool
  s_focusMode :: bool
  s_exposureMode :: bool

record constraints =
  v_width :: "nat \<times> nat option"
  v_height :: "nat \<times> nat option"
  v_frameRate :: "nat \<times> nat option"
  v_facingMode :: "string option"
  v_focusMode :: "string option"
  v_exposureMode :: "string option"
  audio :: bool

definition truthy_nat :: "nat option \<Rightarrow> bool" where
  "truthy_nat x = (case x of None \<Rightarrow> False | Some n \<Rightarrow> n \<noteq> 0)"

definition buildConstraints :: "supported_constraints \<Rightarrow> camera_options \<Rightarrow> constraints" where
  "buildConstraints supp options =
     (let c0 = \<lparr> v_width = (1280, Some 1920), v_height = (720, Some 1080),
                 v_frameRate = (30, Some 60), v_facingMode = None, v_focusMode = None,
                 v_exposureMode = None, audio = False \<rparr>;
          c1 = (if truthy_str (o_facingMode options)
                then (if s_facingMode supp then c0 \<lparr> v_facingMode := o_facingMode options \<rparr>
                      else c0)
                else (if s_facingMode supp then c0 \<lparr> v_facingMode := Some ''environment'' \<rparr>
                      else c0));
          c2 = (if truthy_nat (o_width options)
                then c1 \<lparr> v_width := (the (o_width options), None) \<rparr> else c1);
          c3 = (if truthy_nat (o_height options)
                then c2 \<lparr> v_height := (the (o_height options), None) \<rparr> else c2);
          c4 = (if truthy_nat (o_frameRate options)
                then c3 \<lparr> v_frameRate := (the (o_frameRate options), None) \<rparr> else c3)
      in if o_arOptimized options then
           let c5 = c4 \<lparr> v_width := (640, Some 1280), v_height := (480, Some 720),
                         v_frameRate := (30, None) \<rparr>;
               c6 = (if s_focusMode supp then c5 \<lparr> v_focusMode := Some ''continuous'' \<rparr>
                     else c5)
           in (if s_exposureMode supp then c6 \<lparr> v_exposureMode := Some ''continuous'' \<rparr>
               else c6)
         else c4)"

text \<open>
  The browser as the camera utilities see it: whether \<open>getUserMedia\<close> exists, what it
  answers to a request (the error it rejects with, or the stream), and what the
  permission query reports (\<open>None\<close> when \<open>navigator.permissions\<close> is missing or the query
  fails).
\<close>

record navigator =
  has_getUserMedia :: bool
  getUserMedia :: "constraints \<Rightarrow> js_error + media_stream"
  permission_query :: "PermissionStates option"

text \<open>
  The state the utilities change: their own fields, the log of the error handler and
  the streams whose tracks have been stopped. Listeners are left out.
\<close>

record camera_utils =
  currentStream :: "media_stream option"
  streamState :: StreamStates
  permissionState :: PermissionStates
  currentConstraints :: "constraints option"
  supportedConstraints :: supported_constraints
  errorLog :: "processed_error list"
  stopped :: "media_stream list"

definition checkPermissionState :: "navigator \<Rightarrow> camera_utils \<Rightarrow> camera_utils" where
  "checkPermissionState nav cu =
     cu \<lparr> permissionState :=
            (case permission_query nav of None \<Rightarrow> UNKNOWN | Some state \<Rightarrow> state) \<rparr>"

definition stopCamera :: "camera_utils \<Rightarrow> camera_utils" where
  "stopCamera cu =
     (let cu1 = (case currentStream cu of
                   None \<Rightarrow> cu
                 | Some stream \<Rightarrow> cu \<lparr> stopped := stopped cu @ [stream], currentStream := None \<rparr>)
      in cu1 \<lparr> streamState := STREAM_INACTIVE \<rparr>)"

text \<open>
  The \<open>catch\<close> block of \<open>requestCameraAccess\<close>: the state becomes \<open>error\<close>, the error is
  handed to the error handler under the taxonomy its \<open>name\<close> selects, and a new plain
  \<open>Error\<close> is thrown. In the context of an over-constrained request the constraints are
  recorded by their key only.
\<close>

definition request_failed ::
  "string \<Rightarrow> nat \<Rightarrow> js_error \<Rightarrow> camera_utils \<Rightarrow> (js_error + media_stream) \<times> camera_utils"
  where
  "request_failed eid now error cu =
     (let cu1 = cu \<lparr> streamState := STREAM_ERROR \<rparr>;
          name = error_name error
      in if name = ''NotAllowedError'' \<or> name = ''PermissionDeniedError'' then
           (Inl (PlainError ''Error''
              ''Camera permission denied. Please allow camera access to use AR features.''),
            cu1 \<lparr> errorLog := snd (handlePermissionError eid now (errorLog cu1) error
                                      [(''context'', ''camera_access_request'')]) \<rparr>)
         else if name = ''NotFoundError'' \<or> name = ''DevicesNotFoundError'' then
           (Inl (PlainError ''Error'' ''No camera found on this device.''),
            cu1 \<lparr> errorLog := snd (handleCameraError eid now (errorLog cu1) error
                                      [(''context'', ''no_camera_found'')]) \<rparr>)
         else if name = ''NotReadableError'' \<or> name = ''TrackStartError'' then
           (Inl (PlainError ''Error'' ''Camera is already in use by another application.''),
            cu1 \<lparr> errorLog := snd (handleCameraError eid now (errorLog cu1) error
                                      [(''context'', ''camera_in_use'')]) \<rparr>)
         else if name = ''OverconstrainedError'' \<or> name = ''ConstraintNotSatisfiedError''
         then
           (Inl (PlainError ''Error'' ''Camera does not support the requested configuration.''),
            cu1 \<lparr> errorLog := snd (handleCameraError eid now (errorLog cu1) error
                                      [(''context'', ''unsupported_constraints''),
                                       (''constraints'', [])]) \<rparr>)
         else
           (Inl (PlainError ''Error'' (''Camera access failed: '' @ error_message error)),
            cu1 \<lparr> errorLog := snd (handleCameraError eid now (errorLog cu1) error
                                      [(''context'', ''general_camera_error'')]) \<rparr>))"

definition requestCameraAccess ::
  "navigator \<Rightarrow> string \<Rightarrow> nat \<Rightarrow> camera_options \<Rightarrow> camera_utils
     \<Rightarrow> (js_error + media_stream) \<times> camera_utils" where
  "requestCameraAccess nav eid now options cu =
     (let cu1 = cu \<lparr> streamState := STREAM_REQUESTING \<rparr> in
      if \<not> has_getUserMedia nav then
        request_failed eid now
          (PlainError ''Error'' ''Camera API not supported in this browser'') cu1
      else
        let constraints = buildConstraints (supportedConstraints cu1) options;
            cu2 = cu1 \<lparr> currentConstraints := Some constraints \<rparr>
        in case getUserMedia nav constraints of
             Inl error \<Rightarrow> request_failed eid now error cu2
           | Inr stream \<Rightarrow>
               let cu3 = stopCamera cu2;
                   cu4 = cu3 \<lparr> currentStream := Some stream, streamState := STREAM_ACTIVE \<rparr>
               in (Inr stream, checkPermissionState nav cu4))"

section \<open>lib/services/qrService.js\<close>

text \<open>
  \<open>simpleHash\<close>: the hash is a 32-bit integer (\<open>hash & hash\<close>), so the step
  \<open>((hash << 5) - hash) + char\<close> is word arithmetic; the key is the absolute value of the
  signed result, written in base 36.
\<close>

definition hash_step :: "32 word \<Rightarrow> char \<Rightarrow> 32 word" where
  "hash_step hash c = (push_bit 5 hash - hash) + of_nat (of_char c)"

definition digit36 :: "nat \<Rightarrow> char" where
  "digit36 n = (if n < 10 then char_of (48 + n) else char_of (87 + n))"

function toString36 :: "nat \<Rightarrow> string" where
  "toString36 n = (if n < 36 then [digit36 n] else toString36 (n div 36) @ [digit36 (n mod 36)])"
  by pat_completeness auto
termination
  by (relation "measure id") auto

definition simpleHash :: "string \<Rightarrow> string" where
  "simpleHash str = toString36 (nat \<bar>sint (foldl hash_step 0 str)\<bar>)"

text \<open>
  The cache is a \<open>Map\<close> from keys to items, kept in insertion order; \<open>set\<close> on a key
  that is present replaces its value in place.
\<close>

record 'r cache_item =
  ci_data :: 'r
  ci_timestamp :: nat

type_synonym 'r qr_cache = "(string \<times> 'r cache_item) list"

definition cacheMaxSize :: nat where
  "cacheMaxSize = 100"

definition cacheTimeout :: nat where
  "cacheTimeout = 60 * 60 * 1000"

definition expired :: "nat \<Rightarrow> 'r cache_item \<Rightarrow> bool" where
  "expired now item = (int now - int (ci_timestamp item) > int cacheTimeout)"

definition getFromCache :: "nat \<Rightarrow> string \<Rightarrow> 'r qr_cache \<Rightarrow> 'r option \<times> 'r qr_cache" where
  "getFromCache now key cache =
     (case map_of cache key of
        None \<Rightarrow> (None, cache)
      | Some item \<Rightarrow>
          if expired now item then (None, AList.delete key cache)
          else (Some (ci_data item), cache))"

definition cleanCache :: "nat \<Rightarrow> 'r qr_cache \<Rightarrow> 'r qr_cache" where
  "cleanCache now cache =
     (let c1 = filter (\<lambda>(key, item). \<not> expired now item) cache
      in if length c1 \<ge> cacheMaxSize then
           let items = sort_key (\<lambda>(key, item). ci_timestamp item) c1;
               toRemove = map fst (take (cacheMaxSize div 5) items)
           in filter (\<lambda>(key, item). key \<notin> set toRemove) c1
         else c1)"

definition addToCache :: "nat \<Rightarrow> string \<Rightarrow> 'r \<Rightarrow> 'r qr_cache \<Rightarrow> 'r qr_cache" where
  "addToCache now key data cache =
     (let c1 = (if length cache \<ge> cacheMaxSize then cleanCache now cache else cache)
      in AList.update key \<lparr> ci_data = data, ci_timestamp = now \<rparr> c1)"

text \<open>
  The \<open>QRCode\<close> entity (\<open>lib/models/QRCode.js\<close>) and the request to the generation
  endpoint are parameters of the service: \<open>forUrl\<close> builds the entity, \<open>validate\<close> gives
  the validation errors (the entity is valid when there are none), \<open>stringify\<close> is the
  JSON text of its content and generation configuration, and \<open>generateQRCode\<close> is the
  request, which fails with an error or gives the result.
\<close>

record ('o, 'q, 'r) qr_deps =
  forUrl :: "string \<Rightarrow> 'o \<Rightarrow> 'q"
  validate :: "'q \<Rightarrow> string list"
  stringify :: "'q \<Rightarrow> string"
  generateQRCode :: "'q \<Rightarrow> js_error + 'r"

text \<open>
  The service: its cache and, to count them, the entities for which a request was
  made. A result is an object, so a cached result is always truthy. The calls to
  \<open>handleQRError\<close> on the error paths change the error handler's log only and are left
  out.
\<close>

record ('q, 'r) qr_service =
  cache :: "'r qr_cache"
  requests :: "'q list"

definition join_errors :: "string list \<Rightarrow> string" where
  "join_errors es = concat (case es of [] \<Rightarrow> [] | e # rest \<Rightarrow> e # map (\<lambda>x. '', '' @ x) rest)"

definition getCacheKey :: "('o, 'q, 'r) qr_deps \<Rightarrow> 'q \<Rightarrow> string" where
  "getCacheKey deps qrCode = simpleHash (stringify deps qrCode)"

text \<open>
  \<open>generateForUrl\<close>; \<open>now\<close> is the clock when the cache is read and \<open>later\<close> the clock when
  the result of the request is stored.
\<close>

definition generateForUrl ::
  "('o, 'q, 'r) qr_deps \<Rightarrow> nat \<Rightarrow> nat \<Rightarrow> string \<Rightarrow> 'o \<Rightarrow> ('q, 'r) qr_service
     \<Rightarrow> (js_error + 'r) \<times> ('q, 'r) qr_service" where
  "generateForUrl deps now later u options svc =
     (let qrCode = forUrl deps u options in
      if validate deps qrCode \<noteq> [] then
        (Inl (PlainError ''Error''
           (''Invalid QR code: '' @ join_errors (validate deps qrCode))), svc)
      else
        let cacheKey = getCacheKey deps qrCode;
            (cached, c1) = getFromCache now cacheKey (cache svc)
        in case cached of
             Some result \<Rightarrow> (Inr result, svc \<lparr> cache := c1 \<rparr>)
           | None \<Rightarrow>
               (case generateQRCode deps qrCode of
                  Inl error \<Rightarrow>
                    (Inl error, svc \<lparr> cache := c1, requests := requests svc @ [qrCode] \<rparr>)
                | Inr result \<Rightarrow>
                    (Inr result,
                     svc \<lparr> cache := addToCache later cacheKey result c1,
                           requests := requests svc @ [qrCode] \<rparr>)))"

section \<open>lib/models/QRCode.js\<close>

text \<open>
  Modelled from the spec: the \<open>QRCode\<close> entity of \<open>lib/models/QRCode.js\<close>, which the
  service imports and which is not among the sources. The spec gives its content
  (\<open>data\<close> or \<open>url\<close>), its rendering configuration (size, error correction level,
  margin, format, colours), its usage counters (scan count, AR activation count, the set
  of unique users) and its time stamps. A JavaScript \<open>Set\<close> is the list of its members
  in insertion order, without repetition.
\<close>

record QRCode =
  qr_id :: string
  qr_data :: "string option"
  qr_url :: "string option"
  qr_size :: nat
  qr_errorCorrectionLevel :: string
  qr_margin :: nat
  qr_format :: string
  qr_colorDark :: string
  qr_colorLight :: string
  qr_scanCount :: nat
  qr_arActivationCount :: nat
  qr_uniqueUsers :: "string list"
  qr_createdAt :: nat
  qr_updatedAt :: nat

text \<open>
  Modelled from the spec: the JSON form of the entity, in which the collection of unique
  users is an array.
\<close>

record QRCode_json =
  j_id :: string
  j_data :: "string option"
  j_url :: "string option"
  j_size :: nat
  j_errorCorrectionLevel :: string
  j_margin :: nat
  j_format :: string
  j_colorDark :: string
  j_colorLight :: string
  j_scanCount :: nat
  j_arActivationCount :: nat
  j_uniqueUsers :: "string list"
  j_createdAt :: nat
  j_updatedAt :: nat

text \<open>
  Modelled from the spec: \<open>Array.from(set)\<close> lists the members in insertion order and
  \<open>new Set(array)\<close> adds the elements one by one, skipping those already present.
\<close>

definition set_add :: "string list \<Rightarrow> string \<Rightarrow> string list" where
  "set_add s x = (if x \<in> set s then s else s @ [x])"

definition array_from_set :: "string list \<Rightarrow> string list" where
  "array_from_set s = s"

definition set_from_array :: "string list \<Rightarrow> string list" where
  "set_from_array xs = foldl set_add [] xs"

text \<open>
  Modelled from the spec: \<open>toJSON\<close> copies every field and turns the unique users into an
  array; \<open>fromJSON\<close> copies them back and rebuilds the set.
\<close>

definition toJSON :: "QRCode \<Rightarrow> QRCode_json" where
  "toJSON q =
     \<lparr> j_id = qr_id q, j_data = qr_data q, j_url = qr_url q, j_size = qr_size q,
       j_errorCorrectionLevel = qr_errorCorrectionLevel q, j_margin = qr_margin q,
       j_format = qr_format q, j_colorDark = qr_colorDark q,
       j_colorLight = qr_colorLight q, j_scanCount = qr_scanCount q,
       j_arActivationCount = qr_arActivationCount q,
       j_uniqueUsers = array_from_set (qr_uniqueUsers q),
       j_createdAt = qr_createdAt q, j_updatedAt = qr_updatedAt q \<rparr>"

definition fromJSON :: "QRCode_json \<Rightarrow> QRCode" where
  "fromJSON j =
     \<lparr> qr_id = j_id j, qr_data = j_data j, qr_url = j_url j, qr_size = j_size j,
       qr_errorCorrectionLevel = j_errorCorrectionLevel j, qr_margin = j_margin j,
       qr_format = j_format j, qr_colorDark = j_colorDark j,
       qr_colorLight = j_colorLight j, qr_scanCount = j_scanCount j,
       qr_arActivationCount = j_arActivationCount j,
       qr_uniqueUsers = set_from_array (j_uniqueUsers j),
       qr_createdAt = j_createdAt j, qr_updatedAt = j_updatedAt j \<rparr>"

section \<open>components/ARSessionManager.js and components/CameraHandler.js\<close>

datatype phase =
  PhaseIdle | PhaseChecking | PhaseRequestingCamera | PhaseInitializing | PhaseReady
  | PhaseActive | PhaseError

record ar_statistics =
  markerDetections :: nat
  totalSessionTime :: int
  errorCount :: nat

text \<open>The \<open>sessionState\<close> object of the \<open>ARSessionManager\<close> component.\<close>

record ar_session_state =
  phase :: phase
  error :: "string option"
  cameraReady :: bool
  arReady :: bool
  markerDetected :: bool
  ar_startTime :: "nat option"
  statistics :: ar_statistics

text \<open>
  The manager's state, with the part of its \<open>CameraHandler\<close> child that holds the
  stream: whether the child is mounted, its \<open>streamRef\<close>, and the streams whose tracks
  have been stopped. \<open>rendered_session\<close> is the session state of the last render: the
  effects and callbacks created by that render read it from their closures. The
  properties and hook results the manager reads are in \<open>ar_env\<close>. The writes to the
  session context (\<open>updateSession\<close>) and the callbacks to the parent are left out, and
  \<open>updateSession\<close> and the parent's callbacks are taken to keep their identity from one
  render to the next.
\<close>

record ar_components =
  ar_session :: ar_session_state
  rendered_session :: ar_session_state
  cameraStream :: "media_stream option"
  handler_mounted :: bool
  streamRef :: "media_stream option"
  stopped_streams :: "media_stream list"

record ar_env =
  autoStart :: bool
  capabilitiesLoading :: bool
  isSupported :: bool

definition handleSessionError :: "string \<Rightarrow> ar_components \<Rightarrow> ar_components" where
  "handleSessionError msg w =
     w \<lparr> ar_session := (ar_session w)
           \<lparr> phase := PhaseError,
             error := Some (if msg = [] then ''Unknown error occurred'' else msg),
             statistics := (statistics (ar_session w))
               \<lparr> errorCount := errorCount (statistics (ar_session w)) + 1 \<rparr> \<rparr> \<rparr>"

definition startSessionAR :: "ar_env \<Rightarrow> nat \<Rightarrow> ar_components \<Rightarrow> ar_components" where
  "startSessionAR env now w =
     (let w1 = w \<lparr> ar_session := (ar_session w)
                   \<lparr> phase := PhaseChecking, error := None, ar_startTime := Some now \<rparr> \<rparr>
      in if capabilitiesLoading env then
           w1 \<lparr> ar_session := (ar_session w1) \<lparr> phase := PhaseChecking \<rparr> \<rparr>
         else if \<not> isSupported env then
           handleSessionError ''AR is not supported on this device/browser'' w1
         else w1 \<lparr> ar_session := (ar_session w1) \<lparr> phase := PhaseRequestingCamera \<rparr> \<rparr>)"

text \<open>
  \<open>endSession\<close> computes the duration from the \<open>startTime\<close> of the render that created
  the callback, here \<open>closureStart\<close>, and updates the current state.
\<close>

definition endSessionAR :: "nat \<Rightarrow> nat option \<Rightarrow> ar_components \<Rightarrow> ar_components" where
  "endSessionAR now closureStart w =
     (let sessionDuration = (case closureStart of None \<Rightarrow> 0 | Some t \<Rightarrow> int now - int t)
      in w \<lparr> ar_session := (ar_session w)
               \<lparr> phase := PhaseIdle, cameraReady := False, arReady := False,
                 markerDetected := False,
                 statistics := (statistics (ar_session w))
                   \<lparr> totalSessionTime :=
                       totalSessionTime (statistics (ar_session w)) + sessionDuration \<rparr> \<rparr>,
             cameraStream := None \<rparr>)"

definition handleCameraReady :: "media_stream \<Rightarrow> ar_components \<Rightarrow> ar_components" where
  "handleCameraReady stream w =
     w \<lparr> cameraStream := Some stream,
         ar_session := (ar_session w)
           \<lparr> cameraReady := True,
             phase := (if arReady (ar_session w) then PhaseActive else PhaseInitializing) \<rparr> \<rparr>"

definition handleCameraErrorAR ::
  "js_error \<Rightarrow> string option \<Rightarrow> ar_components \<Rightarrow> ar_components" where
  "handleCameraErrorAR err errorType w =
     handleSessionError
       (if errorType = Some ''permission_denied''
        then ''Camera permission denied. Please allow camera access and try again.''
        else ''Camera error: '' @ error_message err) w"

definition handleARError :: "js_error \<Rightarrow> ar_components \<Rightarrow> ar_components" where
  "handleARError err w = handleSessionError (error_message err) w"

definition handleMarkerFound :: "ar_components \<Rightarrow> ar_components" where
  "handleMarkerFound w =
     w \<lparr> ar_session := (ar_session w)
           \<lparr> markerDetected := True,
             statistics := (statistics (ar_session w))
               \<lparr> markerDetections := markerDetections (statistics (ar_session w)) + 1 \<rparr> \<rparr> \<rparr>"

definition handleMarkerLost :: "ar_components \<Rightarrow> ar_components" where
  "handleMarkerLost w = w \<lparr> ar_session := (ar_session w) \<lparr> markerDetected := False \<rparr> \<rparr>"

text \<open>
  \<open>CameraHandler\<close>: \<open>stopCamera\<close> stops the tracks of the stream in \<open>streamRef\<close>; when
  \<open>getUserMedia\<close> resolves, \<open>startCamera\<close> stores the stream and calls \<open>onCameraReady\<close>;
  when it rejects, the error is classified by its name and reported through
  \<open>onPermissionDenied\<close> (with the error only) or \<open>onError\<close>.
\<close>

definition handler_stopCamera :: "ar_components \<Rightarrow> ar_components" where
  "handler_stopCamera w =
     (case streamRef w of
        None \<Rightarrow> w
      | Some stream \<Rightarrow>
          w \<lparr> stopped_streams := stopped_streams w @ [stream], streamRef := None \<rparr>)"

definition camera_started :: "media_stream \<Rightarrow> ar_components \<Rightarrow> ar_components" where
  "camera_started stream w = handleCameraReady stream (w \<lparr> streamRef := Some stream \<rparr>)"

definition camera_errorType :: "js_error \<Rightarrow> string" where
  "camera_errorType err =
     (let name = error_name err in
      if name = ''NotAllowedError'' \<or> name = ''PermissionDeniedError''
      then ''permission_denied''
      else if name = ''NotFoundError'' \<or> name = ''DevicesNotFoundError'' then ''no_camera''
      else if name = ''NotReadableError'' \<or> name = ''TrackStartError'' then ''camera_busy''
      else if name = ''NotSupportedError'' then ''not_supported''
      else ''unknown'')"

definition camera_failed :: "js_error \<Rightarrow> ar_components \<Rightarrow> ar_components" where
  "camera_failed err w =
     (if camera_errorType err = ''permission_denied'' then handleCameraErrorAR err None w
      else handleCameraErrorAR err (Some (camera_errorType err)) w)"

text \<open>
  Rendering. The manager renders \<open>CameraHandler\<close> in the phases \<open>requesting_camera\<close>,
  \<open>initializing\<close> and \<open>active\<close> only: \<open>commit\<close> mounts it with an empty \<open>streamRef\<close> or
  unmounts it, running the child's cleanup \<open>stopCamera\<close>.
\<close>

definition handler_rendered :: "ar_components \<Rightarrow> bool" where
  "handler_rendered w =
     (phase (ar_session w) = PhaseRequestingCamera \<or> phase (ar_session w) = PhaseInitializing
      \<or> phase (ar_session w) = PhaseActive)"

definition commit :: "ar_components \<Rightarrow> ar_components" where
  "commit w =
     (if handler_rendered w \<and> \<not> handler_mounted w
      then w \<lparr> handler_mounted := True, streamRef := None \<rparr>
      else if \<not> handler_rendered w \<and> handler_mounted w
      then (handler_stopCamera w) \<lparr> handler_mounted := False \<rparr>
      else w)"

text \<open>
  The manager has three effects that change its state. The one commented
  \<open>Cleanup on unmount\<close> depends on the phase and on \<open>endSession\<close>, whose identity
  changes with \<open>startTime\<close> and \<open>statistics\<close>; whenever one of them has changed since the
  last render, the cleanup created by that render runs, and if the phase it captured is
  \<open>active\<close> it calls the \<open>endSession\<close> it captured. The other two are the automatic
  start in phase \<open>idle\<close> and the step from \<open>initializing\<close> to \<open>active\<close> once the camera is
  ready; they test the state of the current render. Cleanups run before effects, and
  each state update is applied to the state the previous one left. React compares
  \<open>statistics\<close> by identity; here it is compared by value, which decides the same
  whenever the captured phase is \<open>active\<close>, since every update that builds a new
  \<open>statistics\<close> object increases a counter or changes the phase.
\<close>

definition cleanup_deps_changed :: "ar_session_state \<Rightarrow> ar_session_state \<Rightarrow> bool" where
  "cleanup_deps_changed prev cur =
     (phase cur \<noteq> phase prev \<or> ar_startTime cur \<noteq> ar_startTime prev
      \<or> statistics cur \<noteq> statistics prev)"

definition effects :: "ar_env \<Rightarrow> nat \<Rightarrow> ar_session_state \<Rightarrow> ar_session_state
    \<Rightarrow> ar_components \<Rightarrow> ar_components" where
  "effects env now prev cur w =
     (let w1 = (if cleanup_deps_changed prev cur \<and> phase prev = PhaseActive
                then endSessionAR now (ar_startTime prev) w else w);
          w2 = (if autoStart env \<and> \<not> capabilitiesLoading env \<and> phase cur = PhaseIdle
                then startSessionAR env now w1 else w1)
      in if cameraReady cur \<and> phase cur = PhaseInitializing
         then w2 \<lparr> ar_session := (ar_session w2) \<lparr> arReady := True, phase := PhaseActive \<rparr> \<rparr>
         else w2)"

text \<open>
  One render: the current state is rendered and committed and becomes the rendered
  state, then the effects run. Renders repeat while the effects change the state;
  \<open>settle\<close> gives the state in which they stop, or \<open>None\<close> when the given number of
  renders does not suffice.
\<close>

definition render :: "ar_env \<Rightarrow> nat \<Rightarrow> ar_components \<Rightarrow> ar_components" where
  "render env now w =
     effects env now (rendered_session w) (ar_session w)
       ((commit w) \<lparr> rendered_session := ar_session w \<rparr>)"

fun settle :: "ar_env \<Rightarrow> nat \<Rightarrow> nat \<Rightarrow> ar_components \<Rightarrow> ar_components option" where
  "settle env now 0 w = None"
| "settle env now (Suc k) w =
     (if ar_session (render env now w) = ar_session w then Some (render env now w)
      else settle env now k (render env now w))"

text \<open>The state the component is created with.\<close>

definition initial_session :: ar_session_state where
  "initial_session =
     \<lparr> phase = PhaseIdle, error = None, cameraReady = False, arReady = False,
       markerDetected = False, ar_startTime = None,
       statistics = \<lparr> markerDetections = 0, totalSessionTime = 0, errorCount = 0 \<rparr> \<rparr>"

definition initial_components :: ar_components where
  "initial_components =
     \<lparr> ar_session = initial_session, rendered_session = initial_session,
       cameraStream = None, handler_mounted = False, streamRef = None,
       stopped_streams = [] \<rparr>"

text \<open>
  The events that reach the manager. The scene reports a failed initialization through
  \<open>onError\<close>; a successful one is not reported to the manager at all.
\<close>

datatype ar_event =
  Start | End | CameraStarted media_stream | CameraFailed js_error | ARInitialized
  | ARFailed js_error | MarkerFound | MarkerLost

fun handle_event :: "ar_env \<Rightarrow> nat \<Rightarrow> ar_event \<Rightarrow> ar_components \<Rightarrow> ar_components" where
  "handle_event env now Start w = startSessionAR env now w"
| "handle_event env now End w = endSessionAR now (ar_startTime (rendered_session w)) w"
| "handle_event env now (CameraStarted stream) w = camera_started stream w"
| "handle_event env now (CameraFailed err) w = camera_failed err w"
| "handle_event env now ARInitialized w = w"
| "handle_event env now (ARFailed err) w = handleARError err w"
| "handle_event env now MarkerFound w = handleMarkerFound w"
| "handle_event env now MarkerLost w = handleMarkerLost w"

text \<open>
  A step is an event followed by the renders it causes, of which at most \<open>fuel\<close> are
  run; a run starts with the renders of mounting the component.
\<close>

definition ar_step ::
  "ar_env \<Rightarrow> nat \<Rightarrow> nat \<times> ar_event \<Rightarrow> ar_components \<Rightarrow> ar_components option" where
  "ar_step env fuel ev w = settle env (fst ev) fuel (handle_event env (fst ev) (snd ev) w)"

fun ar_steps ::
  "ar_env \<Rightarrow> nat \<Rightarrow> (nat \<times> ar_event) list \<Rightarrow> ar_components \<Rightarrow> ar_components option" where
  "ar_steps env fuel [] w = Some w"
| "ar_steps env fuel (ev # evs) w =
     (case ar_step env fuel ev w of None \<Rightarrow> None | Some w' \<Rightarrow> ar_steps env fuel evs w')"

definition ar_run ::
  "ar_env \<Rightarrow> nat \<Rightarrow> nat \<Rightarrow> (nat \<times> ar_event) list \<Rightarrow> ar_components option" where
  "ar_run env fuel mounted evs =
     (case settle env mounted fuel initial_components of
        None \<Rightarrow> None
      | Some w \<Rightarrow> ar_steps env fuel evs w)"

section \<open>Example inputs\<close>

text \<open>A \<open>GET\<close> request with a \<open>data\<close> and a \<open>size\<close> parameter.\<close>

definition example_get :: "string \<Rightarrow> string \<Rightarrow> request" where
  "example_get d s =
     \<lparr> rmethod = ''GET'', q_data = Some d, q_url = None, q_size = Some s, q_format = None,
       q_errorLevel = None, rbody = None \<rparr>"

text \<open>A browser with working local storage, a manager whose session is active and a
  store in which the session \<open>sess_1\<close> has just been created.\<close>

definition example_browser :: browser where
  "example_browser =
     \<lparr> storage_defined = True, setItem_throws = False, userAgent = ''Mozilla/5.0'',
       language = ''pt-BR'', screenSize = Some (390, 844, 3),
       url = ''http://localhost:3000/'', referrer = [] \<rparr>"

definition example_manager :: session_manager where
  "example_manager =
     new_manager \<lparr> sessionId := Some ''halloween_ar_0_abc'', sessionState := ACTIVE,
                   startTime := Some 0, lastActivityTime := Some 0 \<rparr>"

definition example_store :: api_store where
  "example_store =
     \<lparr> sessions = [''sess_1'' \<mapsto> \<lparr> as_sessionId = ''sess_1'', as_state = ACTIVE,
                                  as_startTime = 0, as_lastActivity = 0 \<rparr>],
       api_interactions = [''sess_1'' \<mapsto> []] \<rparr>"

text \<open>A browser whose user denies the camera, and camera utilities that hold no stream.\<close>

definition denying_navigator :: navigator where
  "denying_navigator =
     \<lparr> has_getUserMedia = True,
       getUserMedia = (\<lambda>c. Inl (PlainError ''NotAllowedError'' ''Permission denied'')),
       permission_query = Some DENIED \<rparr>"

definition example_camera :: camera_utils where
  "example_camera =
     \<lparr> currentStream = None, streamState = STREAM_INACTIVE, permissionState = UNKNOWN,
       currentConstraints = None,
       supportedConstraints =
         \<lparr> s_facingMode = True, s_focusMode = False, s_exposureMode = False \<rparr>,
       errorLog = [], stopped = [] \<rparr>"

definition no_options :: camera_options where
  "no_options =
     \<lparr> o_facingMode = None, o_width = None, o_height = None, o_frameRate = None,
       o_arOptimized = False \<rparr>"

text \<open>Stand-ins for the entity and the endpoint, and a service with an empty cache.\<close>

definition example_deps :: "(nat, string \<times> nat, string) qr_deps" where
  "example_deps =
     \<lparr> forUrl = (\<lambda>u size. (u, size)), validate = (\<lambda>q. []),
       stringify = (\<lambda>q. fst q), generateQRCode = (\<lambda>q. Inr (''image of '' @ fst q)) \<rparr>"

definition new_service :: "(string \<times> nat, string) qr_service" where
  "new_service = \<lparr> cache = [], requests = [] \<rparr>"

text \<open>An entity that two users have scanned.\<close>

definition example_qrcode :: QRCode where
  "example_qrcode =
     \<lparr> qr_id = ''qr_001'', qr_data = None, qr_url = Some ''http://localhost:3000/'',
       qr_size = 512, qr_errorCorrectionLevel = ''H'', qr_margin = 2, qr_format = ''png'',
       qr_colorDark = ''#000000'', qr_colorLight = ''#FFFFFF'', qr_scanCount = 3,
       qr_arActivationCount = 1, qr_uniqueUsers = [''user_b'', ''user_a''],
       qr_createdAt = 10, qr_updatedAt = 20 \<rparr>"

text \<open>A device that supports AR, with the automatic start switched on or off.\<close>

definition supported_env :: "bool \<Rightarrow> ar_env" where
  "supported_env auto =
     \<lparr> autoStart = auto, capabilitiesLoading = False, isSupported = True \<rparr>"

text \<open>
  The session states of a run on that device: active after the camera was acquired at
  time 5 in a session started at time 1, ended at time 9 after a failure, and started
  again at time 9.
\<close>

definition example_active :: ar_session_state where
  "example_active =
     \<lparr> phase = PhaseActive, error = None, cameraReady = True, arReady = True,
       markerDetected = False, ar_startTime = Some 1,
       statistics = \<lparr> markerDetections = 0, totalSessionTime = 0, errorCount = 0 \<rparr> \<rparr>"

definition example_ended :: ar_session_state where
  "example_ended =
     \<lparr> phase = PhaseIdle, error = Some ''MindAR failed'', cameraReady = False,
       arReady = False, markerDetected = False, ar_startTime = Some 1,
       statistics = \<lparr> markerDetections = 0, totalSessionTime = 8, errorCount = 1 \<rparr> \<rparr>"

definition example_restarted :: ar_session_state where
  "example_restarted =
     \<lparr> phase = PhaseRequestingCamera, error = None, cameraReady = False, arReady = False,
       markerDetected = False, ar_startTime = Some 9,
       statistics = \<lparr> markerDetections = 0, totalSessionTime = 8, errorCount = 1 \<rparr> \<rparr>"

section \<open>Error categorization\<close>

lemma categorizeError_default:
  assumes "noKeyword (error_message e)"
  shows "categorizeError e = VALIDATION_ERROR"
  using assms
  by (simp add: categorizeError_def noKeyword_def categorizationKeywords_def)

lemma determineSeverity_default:
  assumes "noKeyword (error_message e)"
  shows "determineSeverity e = LOW"
  using assms
  by (simp add: determineSeverity_def noKeyword_def categorizationKeywords_def
      severityKeywords_def)

lemma noKeyword_example: "noKeyword ''Something went wrong''"
  by code_simp

text \<open>
  C8, as stated: every error whose lower-cased message has none of the categorization
  and severity keywords is processed to \<open>VALIDATION_ERROR\<close> and \<open>LOW\<close>. This fails for an
  \<open>ARError\<close>: \<open>processError\<close> keeps the type and severity the error was built with and
  never looks at its message.
\<close>

theorem processError_ARError_counterexample:
  "noKeyword (error_message (ARError ''oops'' AR_ERROR MEDIUM []))
   \<and> pe_type (processError ''err_1'' 0 (ARError ''oops'' AR_ERROR MEDIUM []) []) = AR_ERROR
   \<and> pe_severity (processError ''err_1'' 0 (ARError ''oops'' AR_ERROR MEDIUM []) []) = MEDIUM"
  by (simp add: processError_def) code_simp

text \<open>
  C8, amended: every error that is not an \<open>ARError\<close> and whose lower-cased message has
  none of the categorization and severity keywords is processed to \<open>VALIDATION_ERROR\<close>
  and \<open>LOW\<close>.
\<close>

theorem processError_unmatched_plain_error:
  assumes "\<not> isARError e" and "noKeyword (error_message e)"
  shows "pe_type (processError eid now e ctx) = VALIDATION_ERROR
         \<and> pe_severity (processError eid now e ctx) = LOW"
  using assms categorizeError_default determineSeverity_default
  by (cases e) (simp_all add: processError_def)

theorem processError_unmatched_plain_error_witness:
  "\<not> isARError (PlainError ''Error'' ''Something went wrong'')
   \<and> noKeyword (error_message (PlainError ''Error'' ''Something went wrong''))
   \<and> pe_type (processError ''err_1'' 0 (PlainError ''Error'' ''Something went wrong'') [])
       = VALIDATION_ERROR
   \<and> pe_severity (processError ''err_1'' 0 (PlainError ''Error'' ''Something went wrong'') [])
       = LOW"
  using processError_unmatched_plain_error
    [of "PlainError ''Error'' ''Something went wrong''" "''err_1''" 0 "[]"]
    noKeyword_example
  by simp

section \<open>The QR code endpoint\<close>

lemma handler_content_config:
  assumes "content_of req = Some c" and "config_of req = Some cfg"
  shows "\<exists>cc. handler enc dev req = validate_and_generate enc dev c cc
              \<and> merge_config QR_CONFIG cc = cfg"
  using assms
  by (auto simp: content_of_def config_of_def handler_def split: if_splits option.splits)

lemma content_config_dom: "(content_of req = None) = (config_of req = None)"
  by (auto simp: content_of_def config_of_def split: option.splits)

lemma validate_too_long:
  "length c > MAX_URL_LENGTH \<Longrightarrow>
   status (fst (validate_and_generate enc dev c cc)) = 400
   \<and> snd (validate_and_generate enc dev c cc) = []"
  by (auto simp: validate_and_generate_def)

lemma validate_size:
  assumes "content_accepted c" and "width (merge_config QR_CONFIG cc) = Num n"
    and "n \<noteq> 0" and "n < 64 \<or> 2048 < n"
  shows "validate_and_generate enc dev c cc =
           (\<lparr> status = 400, sent = InvalidSize ''64-2048 pixels'' (Num n) \<rparr>, [])"
  using assms by (auto simp: validate_and_generate_def content_accepted_def Let_def)

lemma validate_nan:
  assumes "width (merge_config QR_CONFIG cc) = NaN"
  shows "sent (fst (validate_and_generate enc dev c cc)) \<noteq> InvalidSize r w"
  using assms
  by (auto simp: validate_and_generate_def generate_def catch_error_def Let_def
      split: sum.splits)

lemma validate_nan_generates:
  assumes "width (merge_config QR_CONFIG cc) = NaN" and "content_accepted c"
    and "errorCorrectionLevel (merge_config QR_CONFIG cc) \<in> set [''L'', ''M'', ''Q'', ''H'']"
  shows "validate_and_generate enc dev c cc = generate enc dev c (merge_config QR_CONFIG cc)"
  using assms
  by (auto simp: validate_and_generate_def content_accepted_def Let_def)

lemma generate_calls:
  "map (width \<circ> snd) (snd (generate enc dev c cfg)) = [width cfg]"
  by (simp add: generate_def Let_def split: sum.splits)

text \<open>
  C3, as stated: every request whose effective size is below 64 or above 2048 is answered
  with status 400 and the valid range, and no image is generated. This fails at size 0:
  the range check is guarded by \<open>config.width &&\<close>, and 0 is falsy.
\<close>

theorem handler_size_zero_counterexample:
  "handler (\<lambda>d c. Inr ''png'') False (example_get ''hello'' ''0'') =
     (\<lparr> status = 200, sent = QRImage ''png'' \<rparr>,
      [(''hello'', QR_CONFIG \<lparr> width := Num 0 \<rparr>)])"
  by (simp add: handler_def example_get_def validate_and_generate_def query_config_def
      empty_config_def merge_config_def QR_CONFIG_def or_default_def truthy_str_def
      str_or_def MAX_URL_LENGTH_def generate_def parseInt_def parseDigits_def isDigit_def
      isWhiteSpace_def digitsValue_def)

text \<open>
  C3, amended: every \<open>GET\<close> or \<open>POST\<close> request whose content passes the earlier checks
  and whose effective size is a number other than 0 that is below 64 or above 2048 is
  answered with status 400 and the range \<open>64-2048 pixels\<close>, and the encoder is not called.
\<close>

theorem handler_rejects_size_out_of_range:
  assumes "content_of req = Some c" and "content_accepted c"
    and "config_of req = Some cfg" and "width cfg = Num n"
    and "n \<noteq> 0" and "n < 64 \<or> 2048 < n"
  shows "handler enc dev req =
           (\<lparr> status = 400, sent = InvalidSize ''64-2048 pixels'' (Num n) \<rparr>, [])"
proof -
  obtain cc where h: "handler enc dev req = validate_and_generate enc dev c cc"
    and m: "merge_config QR_CONFIG cc = cfg"
    using handler_content_config [OF assms(1) assms(3)] by blast
  show ?thesis
    using validate_size [of c cc n enc dev] assms(2,4,5,6) h m by simp
qed

lemma example_get_content: "d \<noteq> [] \<Longrightarrow> content_of (example_get d s) = Some d"
  by (simp add: content_of_def example_get_def str_or_def)

lemma example_get_config:
  "s \<noteq> [] \<Longrightarrow>
   config_of (example_get d s) = Some (QR_CONFIG \<lparr> width := parseInt s \<rparr>)"
  by (simp add: config_of_def example_get_def query_config_def empty_config_def
      merge_config_def QR_CONFIG_def or_default_def truthy_str_def)

lemma content_accepted_hello: "content_accepted ''hello''"
  by (simp add: content_accepted_def MAX_URL_LENGTH_def)

lemma parseInt_examples:
  "parseInt ''63'' = Num 63" "parseInt ''4096'' = Num 4096" "parseInt ''abc'' = NaN"
  by (simp_all add: parseInt_def parseDigits_def isDigit_def isWhiteSpace_def
      digitsValue_def)

theorem handler_rejects_size_out_of_range_witness:
  "content_of (example_get ''hello'' ''63'') = Some ''hello''
   \<and> content_accepted ''hello''
   \<and> config_of (example_get ''hello'' ''63'') = Some (QR_CONFIG \<lparr> width := Num 63 \<rparr>)
   \<and> width (QR_CONFIG \<lparr> width := Num 63 \<rparr>) = Num 63 \<and> (63 :: int) \<noteq> 0
   \<and> ((63 :: int) < 64 \<or> 2048 < (63 :: int))
   \<and> handler (\<lambda>d c. Inr ''png'') False (example_get ''hello'' ''63'') =
       (\<lparr> status = 400, sent = InvalidSize ''64-2048 pixels'' (Num 63) \<rparr>, [])"
  using handler_rejects_size_out_of_range
    [of "example_get ''hello'' ''63''" "''hello''" "QR_CONFIG \<lparr> width := Num 63 \<rparr>" 63
      "\<lambda>d c. Inr ''png''" False]
    example_get_content [of "''hello''" "''63''"]
    example_get_config [of "''63''" "''hello''"]
    content_accepted_hello parseInt_examples(1)
  by simp

text \<open>
  C4: every request whose content string (\<open>data\<close> or \<open>url\<close>) is longer than 2048
  characters is answered with status 400, and the encoder is never called.
\<close>

theorem handler_rejects_long_content:
  assumes "content_of req = Some c" and "length c > 2048"
  shows "status (fst (handler enc dev req)) = 400 \<and> snd (handler enc dev req) = []"
proof -
  from assms(1) obtain cfg where "config_of req = Some cfg"
    using content_config_dom [of req] by (cases "config_of req") auto
  with assms(1) obtain cc where "handler enc dev req = validate_and_generate enc dev c cc"
    using handler_content_config by blast
  with assms(2) show ?thesis
    using validate_too_long [of c enc dev cc] by (simp add: MAX_URL_LENGTH_def)
qed

theorem handler_rejects_long_content_witness:
  "content_of (example_get (replicate 2049 CHR ''a'') ''512'')
     = Some (replicate 2049 CHR ''a'')
   \<and> length (replicate 2049 CHR ''a'') > 2048
   \<and> status (fst (handler (\<lambda>d c. Inr ''png'') False
         (example_get (replicate 2049 CHR ''a'') ''512''))) = 400
   \<and> snd (handler (\<lambda>d c. Inr ''png'') False
         (example_get (replicate 2049 CHR ''a'') ''512'')) = []"
proof -
  have c: "content_of (example_get (replicate 2049 CHR ''a'') ''512'')
             = Some (replicate 2049 CHR ''a'')"
    by (rule example_get_content) simp
  have l: "length (replicate 2049 CHR ''a'') > 2048"
    by simp
  show ?thesis
    using handler_rejects_long_content [OF c l, of "\<lambda>d c. Inr ''png''" False] c l
    by blast
qed

text \<open>
  C10: for every \<open>GET\<close> request whose \<open>size\<close> parameter is parsed to \<open>NaN\<close>, the handler
  does not answer with the invalid-size error; the merged width is \<open>NaN\<close>, and when the
  content and the error correction level pass their checks the encoder is called with
  that width.
\<close>

theorem handler_size_NaN_not_rejected:
  assumes "rmethod req = ''GET''" and "q_size req = Some s" and "s \<noteq> []"
    and "parseInt s = NaN"
  shows "\<exists>c cfg. content_of req = Some c \<and> config_of req = Some cfg \<and> width cfg = NaN
           \<and> (\<forall>r w. sent (fst (handler enc dev req)) \<noteq> InvalidSize r w)
           \<and> (content_accepted c
                \<and> errorCorrectionLevel cfg \<in> set [''L'', ''M'', ''Q'', ''H'']
                \<longrightarrow> handler enc dev req = generate enc dev c cfg
                    \<and> map (width \<circ> snd) (snd (handler enc dev req)) = [NaN])"
proof -
  let ?c = "str_or (q_data req) (str_or (q_url req) [])"
  let ?cc = "query_config req"
  let ?cfg = "merge_config QR_CONFIG ?cc"
  have h: "handler enc dev req = validate_and_generate enc dev ?c ?cc"
    using assms(1) by (simp add: handler_def)
  have w: "width ?cfg = NaN"
    using assms(2,3,4)
    by (simp add: query_config_def merge_config_def or_default_def truthy_str_def
        empty_config_def)
  have a: "content_of req = Some ?c" "config_of req = Some ?cfg"
    using assms(1) by (simp_all add: content_of_def config_of_def)
  have b: "\<forall>r w. sent (fst (handler enc dev req)) \<noteq> InvalidSize r w"
    using validate_nan [OF w] h by simp
  have c: "content_accepted ?c
      \<and> errorCorrectionLevel ?cfg \<in> set [''L'', ''M'', ''Q'', ''H'']
      \<longrightarrow> handler enc dev req = generate enc dev ?c ?cfg
          \<and> map (width \<circ> snd) (snd (handler enc dev req)) = [NaN]"
    using validate_nan_generates [OF w] h w generate_calls [of enc dev ?c ?cfg] by simp
  show ?thesis
    by (rule exI [of _ ?c], rule exI [of _ ?cfg])
      (use a b c w generate_calls [of enc dev ?c ?cfg] in auto)
qed

theorem handler_size_NaN_not_rejected_witness:
  "rmethod (example_get ''hello'' ''abc'') = ''GET''
   \<and> q_size (example_get ''hello'' ''abc'') = Some ''abc'' \<and> ''abc'' \<noteq> []
   \<and> parseInt ''abc'' = NaN
   \<and> handler (\<lambda>d c. Inr ''png'') False (example_get ''hello'' ''abc'') =
       (\<lparr> status = 200, sent = QRImage ''png'' \<rparr>, [(''hello'', QR_CONFIG \<lparr> width := NaN \<rparr>)])"
proof -
  have m: "rmethod (example_get ''hello'' ''abc'') = ''GET''"
    and q: "q_size (example_get ''hello'' ''abc'') = Some ''abc''"
    by (simp_all add: example_get_def)
  have n: "''abc'' \<noteq> []" by simp
  from handler_size_NaN_not_rejected [OF m q n parseInt_examples(3),
      of "\<lambda>d c. Inr ''png''" False]
  obtain c cfg where "content_of (example_get ''hello'' ''abc'') = Some c"
    and "config_of (example_get ''hello'' ''abc'') = Some cfg"
    and g: "content_accepted c \<and> errorCorrectionLevel cfg \<in> set [''L'', ''M'', ''Q'', ''H'']
        \<longrightarrow> handler (\<lambda>d c. Inr ''png'') False (example_get ''hello'' ''abc'')
            = generate (\<lambda>d c. Inr ''png'') False c cfg"
    by blast
  then have c: "c = ''hello''" and cfg: "cfg = QR_CONFIG \<lparr> width := NaN \<rparr>"
    using example_get_content [of "''hello''" "''abc''"]
      example_get_config [of "''abc''" "''hello''"] parseInt_examples(3)
    by simp_all
  have "handler (\<lambda>d c. Inr ''png'') False (example_get ''hello'' ''abc'')
          = generate (\<lambda>d c. Inr ''png'') False c cfg"
    using g content_accepted_hello unfolding c cfg by (simp add: QR_CONFIG_def)
  then show ?thesis
    using m q parseInt_examples(3) unfolding c cfg
    by (simp add: generate_def QR_CONFIG_def)
qed

section \<open>Interaction records\<close>

lemma slice_last_length: "length (slice_last n xs) = min n (length xs)"
  by (simp add: slice_last_def)

lemma slice_last_short: "length xs \<le> n \<Longrightarrow> slice_last n xs = xs"
  by (simp add: slice_last_def)

lemma slice_last_snoc: "slice_last n (slice_last n xs @ [y]) = slice_last n (xs @ [y])"
  by (cases "length xs \<le> n") (auto simp: slice_last_def Suc_diff_le)

lemma slice_last_append: "slice_last n (slice_last n xs @ ys) = slice_last n (xs @ ys)"
proof (induction ys rule: rev_induct)
  case Nil
  show ?case by (simp add: slice_last_def)
next
  case (snoc y ys)
  have "slice_last n (slice_last n xs @ ys @ [y])
          = slice_last n (slice_last n (slice_last n xs @ ys) @ [y])"
    using slice_last_snoc [of n "slice_last n xs @ ys" y] by simp
  also have "\<dots> = slice_last n (slice_last n (xs @ ys) @ [y])"
    using snoc.IH by simp
  also have "\<dots> = slice_last n (xs @ ys @ [y])"
    using slice_last_snoc [of n "xs @ ys" y] by simp
  finally show ?case by simp
qed

lemma add_stored:
  "api_interactions (snd (addInteractionToSession now iid sid type data st)) sid =
     Some (slice_last 100
        (or_default (api_interactions st sid) [] @ [new_interaction sid (now, iid, type, data)]))"
  by (auto simp: addInteractionToSession_def Let_def maxInteractionsPerSession_def
      slice_last_short split: option.splits)

lemma add_all_stored:
  "api_interactions st sid = Some xs \<Longrightarrow> length xs \<le> 100 \<Longrightarrow>
   api_interactions (add_all sid evs st) sid =
     Some (slice_last 100 (xs @ map (new_interaction sid) evs))"
proof (induction evs arbitrary: st xs)
  case Nil
  then show ?case by (simp add: slice_last_short)
next
  case (Cons ev evs)
  obtain now iid type data where ev: "ev = (now, iid, type, data)" by (cases ev) auto
  let ?st = "snd (addInteractionToSession now iid sid type data st)"
  let ?ys = "slice_last 100 (xs @ [new_interaction sid ev])"
  have s: "api_interactions ?st sid = Some ?ys"
    using add_stored [of now iid sid type data st] Cons.prems(1) ev
    by (simp add: or_default_def)
  have l: "length ?ys \<le> 100" by (simp add: slice_last_length)
  have "api_interactions (add_all sid evs ?st) sid =
          Some (slice_last 100 (?ys @ map (new_interaction sid) evs))"
    by (rule Cons.IH [OF s l])
  then show ?case
    using ev slice_last_append [of 100 "xs @ [new_interaction sid ev]"
        "map (new_interaction sid) evs"]
    by simp
qed

lemma special_fields:
  "interactions (handleSpecialInteractions now type data m) = interactions m"
  "localStorage (handleSpecialInteractions now type data m) = localStorage m"
  "sessionState m \<noteq> INACTIVE \<Longrightarrow>
     sessionState (handleSpecialInteractions now type data m) \<noteq> INACTIVE"
  by (simp_all add: handleSpecialInteractions_def)

lemma save_fields:
  "interactions (saveSessionData b now m) = interactions m"
  "sessionState (saveSessionData b now m) = sessionState m"
  by (simp_all add: saveSessionData_def)

lemma save_storage:
  "storage_defined b \<Longrightarrow> \<not> setItem_throws b \<Longrightarrow>
   localStorage (saveSessionData b now m) =
     Some \<lparr> si_sessionData = sessionData m, si_interactions = slice_last 50 (interactions m),
            si_sessionState = sessionState m, si_lastSaved = now \<rparr>"
  by (simp add: saveSessionData_def)

lemma reset_fields:
  "interactions (resetSessionTimeout now m) = interactions m"
  "sessionState (resetSessionTimeout now m) = sessionState m"
  by (simp_all add: resetSessionTimeout_def)

lemma track_unfold:
  "sessionState m \<noteq> INACTIVE \<Longrightarrow>
   trackInteraction b now iid type data m =
     handleSpecialInteractions now type data
       (saveSessionData b now
          (resetSessionTimeout now
             (m \<lparr> interactions := interactions m @
                     [\<lparr> i_id = iid, i_sessionId = sessionId m, i_type = type,
                        i_timestamp = now, i_data = data \<rparr>],
                  lastActivityTime := Some now \<rparr>)))"
  by (simp add: trackInteraction_def Let_def)

lemma track_state: "sessionState m \<noteq> INACTIVE \<Longrightarrow>
  sessionState (trackInteraction b now iid type data m) \<noteq> INACTIVE"
  by (simp add: track_unfold special_fields save_fields reset_fields)

lemma track_interactions: "sessionState m \<noteq> INACTIVE \<Longrightarrow>
  interactions (trackInteraction b now iid type data m) =
    interactions m @ [\<lparr> i_id = iid, i_sessionId = sessionId m, i_type = type,
                         i_timestamp = now, i_data = data \<rparr>]"
  by (simp add: track_unfold special_fields save_fields reset_fields)

lemma track_storage:
  "sessionState m \<noteq> INACTIVE \<Longrightarrow> storage_defined b \<Longrightarrow> \<not> setItem_throws b \<Longrightarrow>
   \<exists>si. localStorage (trackInteraction b now iid type data m) = Some si
      \<and> si_interactions si = slice_last 50 (interactions (trackInteraction b now iid type data m))"
  by (simp add: track_unfold special_fields save_fields save_storage reset_fields)

lemma track_all_state: "sessionState m \<noteq> INACTIVE \<Longrightarrow>
  sessionState (track_all b evs m) \<noteq> INACTIVE"
proof (induction evs arbitrary: m)
  case Nil
  then show ?case by simp
next
  case (Cons ev evs)
  obtain now iid type data where ev: "ev = (now, iid, type, data)" by (cases ev) blast
  show ?case
    unfolding ev track_all.simps
    by (rule Cons.IH) (rule track_state [OF Cons.prems])
qed

lemma track_all_count: "sessionState m \<noteq> INACTIVE \<Longrightarrow>
  length (interactions (track_all b evs m)) = length (interactions m) + length evs"
proof (induction evs arbitrary: m)
  case Nil
  then show ?case by simp
next
  case (Cons ev evs)
  obtain now iid type data where ev: "ev = (now, iid, type, data)" by (cases ev) blast
  have "length (interactions (track_all b evs (trackInteraction b now iid type data m)))
          = length (interactions (trackInteraction b now iid type data m)) + length evs"
    by (rule Cons.IH) (rule track_state [OF Cons.prems])
  then show ?case
    unfolding ev track_all.simps
    by (simp add: track_interactions [OF Cons.prems])
qed

lemma track_all_snoc:
  "track_all b (evs @ [(now, iid, type, data)]) m
     = trackInteraction b now iid type data (track_all b evs m)"
proof (induction evs arbitrary: m)
  case Nil
  show ?case by simp
next
  case (Cons ev evs)
  obtain now' iid' type' data' where ev: "ev = (now', iid', type', data')"
    by (cases ev) blast
  show ?case unfolding ev by (simp add: Cons.IH)
qed

lemma track_all_storage:
  assumes "sessionState m \<noteq> INACTIVE" "storage_defined b" "\<not> setItem_throws b" "evs \<noteq> []"
  shows "\<exists>si. localStorage (track_all b evs m) = Some si
      \<and> si_interactions si = slice_last 50 (interactions (track_all b evs m))"
proof -
  from assms(4) obtain evs' ev where e: "evs = evs' @ [ev]"
    by (cases evs rule: rev_cases) blast+
  obtain now iid type data where ev: "ev = (now, iid, type, data)" by (cases ev) blast
  show ?thesis
    using track_storage [OF track_all_state [OF assms(1), of b evs'] assms(2,3), of now iid type data]
    unfolding e ev track_all_snoc .
qed

text \<open>
  C1: interaction records are bounded. After any non-empty run of tracked interactions
  the snapshot in local storage holds the last 50 interactions of the manager, while the
  count the manager reports in its statistics grows by one per interaction. In the
  route's store a session that starts empty holds the last 100 interactions added, so
  its length is the smaller of 100 and the number added; after exactly 100 it is 100.
\<close>

theorem interaction_records_bounded:
  assumes "sessionState m \<noteq> INACTIVE" and "storage_defined b" and "\<not> setItem_throws b"
    and "evs \<noteq> []" and "api_interactions st sid = Some []"
  shows "(\<exists>si. localStorage (track_all b evs m) = Some si
            \<and> si_interactions si = slice_last 50 (interactions (track_all b evs m))
            \<and> length (si_interactions si) \<le> 50)
         \<and> stats_interactionCount (track_all b evs m) = stats_interactionCount m + length evs
         \<and> api_interactions (add_all sid evs st) sid
             = Some (slice_last 100 (map (new_interaction sid) evs))
         \<and> api_interactionCount (add_all sid evs st) sid = min 100 (length evs)
         \<and> (length evs = 100 \<longrightarrow>
               api_interactionCount (add_all sid evs st) sid = 100
               \<and> stats_interactionCount (track_all b evs m) = stats_interactionCount m + 100)"
proof -
  obtain si where si: "localStorage (track_all b evs m) = Some si"
    "si_interactions si = slice_last 50 (interactions (track_all b evs m))"
    using track_all_storage [OF assms(1-4)] by blast
  have l: "length (si_interactions si) \<le> 50"
    unfolding si(2) by (simp add: slice_last_length)
  have c: "stats_interactionCount (track_all b evs m) = stats_interactionCount m + length evs"
    unfolding stats_interactionCount_def by (rule track_all_count [OF assms(1)])
  have s: "api_interactions (add_all sid evs st) sid
             = Some (slice_last 100 (map (new_interaction sid) evs))"
    using add_all_stored [OF assms(5), of evs] by simp
  have n: "api_interactionCount (add_all sid evs st) sid = min 100 (length evs)"
    unfolding api_interactionCount_def s by (simp add: or_default_def slice_last_length)
  show ?thesis
    using si l c s n by simp
qed

theorem interaction_records_bounded_witness:
  "sessionState example_manager \<noteq> INACTIVE \<and> storage_defined example_browser
   \<and> \<not> setItem_throws example_browser
   \<and> replicate 101 (5 :: nat, ''int_5_abc'', ''qr_scan'', [] :: js_object) \<noteq> []
   \<and> api_interactions example_store ''sess_1'' = Some []
   \<and> stats_interactionCount
         (track_all example_browser
            (replicate 101 (5, ''int_5_abc'', ''qr_scan'', [])) example_manager) = 101
   \<and> api_interactionCount
         (add_all ''sess_1'' (replicate 101 (5, ''int_5_abc'', ''qr_scan'', []))
            example_store) ''sess_1'' = 100"
proof -
  have h: "sessionState example_manager \<noteq> INACTIVE" "storage_defined example_browser"
    "\<not> setItem_throws example_browser"
    "replicate 101 (5 :: nat, ''int_5_abc'', ''qr_scan'', [] :: js_object) \<noteq> []"
    "api_interactions example_store ''sess_1'' = Some []"
    by (simp_all add: example_manager_def example_browser_def example_store_def
        new_manager_def)
  have z: "stats_interactionCount example_manager = 0"
    by (simp add: stats_interactionCount_def example_manager_def new_manager_def)
  show ?thesis
    using interaction_records_bounded [OF h] h z by simp
qed

section \<open>Session expiry\<close>

lemma special_timer:
  "timer (handleSpecialInteractions now type data m) = timer m"
  "timeoutId (handleSpecialInteractions now type data m) = timeoutId m"
  by (simp_all add: handleSpecialInteractions_def)

lemma save_timer:
  "timer (saveSessionData b now m) = timer m"
  "timeoutId (saveSessionData b now m) = timeoutId m"
  by (simp_all add: saveSessionData_def)

lemma track_timer:
  "sessionState m \<noteq> INACTIVE \<Longrightarrow>
   timer (trackInteraction b now iid type data m) = Some (now + sessionTimeout)"
  by (simp add: track_unfold special_timer save_timer resetSessionTimeout_def)

lemma endSession_state:
  "sessionState m \<noteq> INACTIVE \<Longrightarrow> sessionState (endSession b now m) = COMPLETED"
  by (simp add: endSession_def Let_def save_fields)

lemma endSession_timer:
  "sessionState m \<noteq> INACTIVE \<Longrightarrow> timer m = None \<Longrightarrow> timer (endSession b now m) = None"
  by (simp add: endSession_def Let_def save_timer)

lemma endSession_storage:
  "sessionState m \<noteq> INACTIVE \<Longrightarrow> storage_defined b \<Longrightarrow> \<not> setItem_throws b \<Longrightarrow>
   \<exists>si. localStorage (endSession b now m) = Some si \<and> si_sessionState si = COMPLETED
        \<and> si_lastSaved si = now"
  by (simp add: endSession_def Let_def save_storage)

lemma run_timer_due:
  "timer m = Some due \<Longrightarrow> due \<le> now \<Longrightarrow>
   run_timer b now m = endSession b now (m \<lparr> timer := None \<rparr>)"
  by (simp add: run_timer_def)

lemma run_timer_early:
  "timer m = Some due \<Longrightarrow> now < due \<Longrightarrow> run_timer b now m = m"
  by (simp add: run_timer_def)

text \<open>
  C2, as stated: after 30 minutes without a tracked interaction the timer ends the
  session, the state becomes \<open>completed\<close>, and local storage is cleared on the next
  \<open>endSession\<close>. The last part fails: \<open>endSession\<close> saves the final snapshot, and only
  \<open>clearSessionData\<close> removes the item.
\<close>

theorem endSession_keeps_storage_counterexample:
  "sessionState (run_timer example_browser 1800000
      (trackInteraction example_browser 0 ''int_0_abc'' ''qr_scan'' [] example_manager))
     = COMPLETED
   \<and> localStorage (endSession example_browser 1800001
        (run_timer example_browser 1800000
           (trackInteraction example_browser 0 ''int_0_abc'' ''qr_scan'' [] example_manager)))
       \<noteq> None"
  by (simp add: run_timer_def trackInteraction_def endSession_def saveSessionData_def
      resetSessionTimeout_def handleSpecialInteractions_def sessionTimeout_def Let_def
      example_manager_def example_browser_def new_manager_def AR_START_def AR_END_def
      ERROR_OCCURRED_def)

text \<open>
  C2, amended: a tracked interaction arms the timer for 30 minutes later. If nothing
  re-arms it, the event loop leaves the session alone before that time, and from that
  time on the timer runs \<open>endSession\<close>: the state becomes \<open>completed\<close>, no timer is left,
  and the final snapshot is written to local storage; a further \<open>endSession\<close> writes the
  snapshot again and does not clear the item.
\<close>

theorem session_expires_after_timeout:
  assumes "sessionState m \<noteq> INACTIVE" and "storage_defined b" and "\<not> setItem_throws b"
    and "m1 = trackInteraction b t0 iid type data m"
  shows "timer m1 = Some (t0 + 30 * 60 * 1000)
         \<and> (t < t0 + 30 * 60 * 1000 \<longrightarrow> run_timer b t m1 = m1)
         \<and> (t0 + 30 * 60 * 1000 \<le> t \<longrightarrow>
               sessionState (run_timer b t m1) = COMPLETED
               \<and> timer (run_timer b t m1) = None
               \<and> (\<exists>si. localStorage (run_timer b t m1) = Some si
                     \<and> si_sessionState si = COMPLETED)
               \<and> (\<exists>si. localStorage (endSession b t2 (run_timer b t m1)) = Some si
                     \<and> si_sessionState si = COMPLETED))"
proof -
  have tm: "timer m1 = Some (t0 + 30 * 60 * 1000)"
    unfolding assms(4) using track_timer [OF assms(1)] by (simp add: sessionTimeout_def)
  have st: "sessionState m1 \<noteq> INACTIVE"
    unfolding assms(4) by (rule track_state [OF assms(1)])
  have early: "t < t0 + 30 * 60 * 1000 \<longrightarrow> run_timer b t m1 = m1"
    using run_timer_early [OF tm] by simp
  have late: "sessionState (run_timer b t m1) = COMPLETED
               \<and> timer (run_timer b t m1) = None
               \<and> (\<exists>si. localStorage (run_timer b t m1) = Some si
                     \<and> si_sessionState si = COMPLETED)
               \<and> (\<exists>si. localStorage (endSession b t2 (run_timer b t m1)) = Some si
                     \<and> si_sessionState si = COMPLETED)"
    if due: "t0 + 30 * 60 * 1000 \<le> t"
  proof -
    let ?m = "m1 \<lparr> timer := None \<rparr>"
    have r: "run_timer b t m1 = endSession b t ?m"
      by (rule run_timer_due [OF tm due])
    have s: "sessionState ?m \<noteq> INACTIVE" using st by simp
    have c: "sessionState (endSession b t ?m) = COMPLETED"
      by (rule endSession_state [OF s])
    then have c': "sessionState (endSession b t ?m) \<noteq> INACTIVE" by simp
    have n: "timer (endSession b t ?m) = None"
      by (rule endSession_timer [OF s]) simp
    have l1: "\<exists>si. localStorage (endSession b t ?m) = Some si \<and> si_sessionState si = COMPLETED"
      using endSession_storage [OF s assms(2,3), of t] by blast
    have l2: "\<exists>si. localStorage (endSession b t2 (endSession b t ?m)) = Some si
                \<and> si_sessionState si = COMPLETED"
      using endSession_storage [OF c' assms(2,3), of t2] by blast
    show ?thesis unfolding r using c n l1 l2 by blast
  qed
  show ?thesis using tm early late by blast
qed

theorem session_expires_after_timeout_witness:
  "sessionState example_manager \<noteq> INACTIVE \<and> storage_defined example_browser
   \<and> \<not> setItem_throws example_browser
   \<and> sessionState (run_timer example_browser 1800000
        (trackInteraction example_browser 0 ''int_0_abc'' ''qr_scan'' [] example_manager))
       = COMPLETED"
proof -
  have h: "sessionState example_manager \<noteq> INACTIVE" "storage_defined example_browser"
    "\<not> setItem_throws example_browser"
    by (simp_all add: example_manager_def example_browser_def new_manager_def)
  show ?thesis
    using session_expires_after_timeout
        [where m = example_manager and b = example_browser and ?t0.0 = 0 and t = 1800000
          and iid = "''int_0_abc''" and type = "''qr_scan''" and data = "[]"
          and ?t2.0 = 1800001, OF h refl] h
    by simp
qed

section \<open>Camera permission denied\<close>

lemma handlePermissionError_processed:
  "pe_type (fst (handlePermissionError eid now elog e ctx)) = PERMISSION_ERROR"
  "pe_severity (fst (handlePermissionError eid now elog e ctx)) = CRITICAL"
  "pe_message (fst (handlePermissionError eid now elog e ctx)) = error_message e"
  by (simp_all add: handlePermissionError_def handleError_def processError_def Let_def)

lemma handleError_logged:
  "snd (handleError eid now elog e ctx) \<noteq> []
   \<and> last (snd (handleError eid now elog e ctx)) = fst (handleError eid now elog e ctx)"
  by (cases elog) (simp_all add: handleError_def logError_def maxLogSize_def Let_def)

lemma handlePermissionError_logged:
  "snd (handlePermissionError eid now elog e ctx) \<noteq> []
   \<and> last (snd (handlePermissionError eid now elog e ctx))
       = fst (handlePermissionError eid now elog e ctx)"
  unfolding handlePermissionError_def by (rule handleError_logged)

lemma request_failed_denied:
  assumes "error_name e = ''NotAllowedError''"
  shows "request_failed eid now e cu =
     (Inl (PlainError ''Error''
        ''Camera permission denied. Please allow camera access to use AR features.''),
      cu \<lparr> streamState := STREAM_ERROR,
           errorLog := snd (handlePermissionError eid now (errorLog cu) e
                              [(''context'', ''camera_access_request'')]) \<rparr>)"
  using assms by (simp add: request_failed_def Let_def)

text \<open>
  C5, as stated: when \<open>getUserMedia\<close> rejects with a \<open>NotAllowedError\<close>, the caller of
  \<open>requestCameraAccess\<close> gets a permission-taxonomy error of critical severity. This
  fails: the record built by \<open>handlePermissionError\<close> is dropped and a new plain \<open>Error\<close>
  is thrown, which is no \<open>ARError\<close> and which the error handler would classify, by its
  message, as \<open>CAMERA_ERROR\<close> of severity \<open>HIGH\<close>.
\<close>

theorem requestCameraAccess_throws_plain_error_counterexample:
  "fst (requestCameraAccess denying_navigator ''err_1'' 7 no_options example_camera)
     = Inl (PlainError ''Error''
         ''Camera permission denied. Please allow camera access to use AR features.'')
   \<and> \<not> isARError (PlainError ''Error''
         ''Camera permission denied. Please allow camera access to use AR features.'')
   \<and> pe_type (processError ''err_2'' 8 (PlainError ''Error''
         ''Camera permission denied. Please allow camera access to use AR features.'') [])
       = CAMERA_ERROR
   \<and> pe_severity (processError ''err_2'' 8 (PlainError ''Error''
         ''Camera permission denied. Please allow camera access to use AR features.'') [])
       = HIGH"
proof -
  have "fst (requestCameraAccess denying_navigator ''err_1'' 7 no_options example_camera)
     = Inl (PlainError ''Error''
         ''Camera permission denied. Please allow camera access to use AR features.'')"
    by (simp add: requestCameraAccess_def denying_navigator_def request_failed_def Let_def)
  moreover have "categorizeError (PlainError ''Error''
         ''Camera permission denied. Please allow camera access to use AR features.'')
       = CAMERA_ERROR"
    by code_simp
  moreover have "determineSeverity (PlainError ''Error''
         ''Camera permission denied. Please allow camera access to use AR features.'')
       = HIGH"
    by code_simp
  ultimately show ?thesis by (simp add: processError_def)
qed

text \<open>
  C5, amended: when \<open>getUserMedia\<close> rejects with a \<open>NotAllowedError\<close>,
  \<open>requestCameraAccess\<close> throws a plain \<open>Error\<close> with the permission-denied message, the
  error handler has logged the rejection as a \<open>PERMISSION_ERROR\<close> of severity
  \<open>CRITICAL\<close>, the stream state is \<open>error\<close>, not \<open>active\<close>, and neither a new stream is
  stored nor an old one stopped.
\<close>

theorem requestCameraAccess_permission_denied:
  assumes "has_getUserMedia nav"
    and "getUserMedia nav (buildConstraints (supportedConstraints cu) options) = Inl e"
    and "error_name e = ''NotAllowedError''"
    and "requestCameraAccess nav eid now options cu = (r, cu')"
  shows "r = Inl (PlainError ''Error''
               ''Camera permission denied. Please allow camera access to use AR features.'')
         \<and> errorLog cu' \<noteq> []
         \<and> pe_type (last (errorLog cu')) = PERMISSION_ERROR
         \<and> pe_severity (last (errorLog cu')) = CRITICAL
         \<and> pe_message (last (errorLog cu')) = error_message e
         \<and> streamState cu' = STREAM_ERROR \<and> streamState cu' \<noteq> STREAM_ACTIVE
         \<and> currentStream cu' = currentStream cu \<and> stopped cu' = stopped cu"
proof -
  let ?cu2 = "cu \<lparr> streamState := STREAM_REQUESTING,
                   currentConstraints :=
                     Some (buildConstraints (supportedConstraints cu) options) \<rparr>"
  have "requestCameraAccess nav eid now options cu = request_failed eid now e ?cu2"
    using assms(1,2) by (simp add: requestCameraAccess_def Let_def)
  then have eq: "(r, cu') = request_failed eid now e ?cu2"
    using assms(4) by simp
  have r: "r = Inl (PlainError ''Error''
               ''Camera permission denied. Please allow camera access to use AR features.'')"
    and c: "cu' = ?cu2 \<lparr> streamState := STREAM_ERROR,
           errorLog := snd (handlePermissionError eid now (errorLog ?cu2) e
                              [(''context'', ''camera_access_request'')]) \<rparr>"
    using eq unfolding request_failed_denied [OF assms(3)] by simp_all
  have l: "errorLog cu' = snd (handlePermissionError eid now (errorLog cu) e
                              [(''context'', ''camera_access_request'')])"
    unfolding c by simp
  show ?thesis
    unfolding l using r handlePermissionError_logged [of eid now "errorLog cu" e]
      handlePermissionError_processed [of eid now "errorLog cu" e]
    by (simp add: c)
qed

theorem requestCameraAccess_permission_denied_witness:
  "has_getUserMedia denying_navigator
   \<and> getUserMedia denying_navigator
        (buildConstraints (supportedConstraints example_camera) no_options)
       = Inl (PlainError ''NotAllowedError'' ''Permission denied'')
   \<and> error_name (PlainError ''NotAllowedError'' ''Permission denied'') = ''NotAllowedError''
   \<and> fst (requestCameraAccess denying_navigator ''err_1'' 7 no_options example_camera)
       = Inl (PlainError ''Error''
           ''Camera permission denied. Please allow camera access to use AR features.'')
   \<and> streamState (snd (requestCameraAccess denying_navigator ''err_1'' 7 no_options
        example_camera)) = STREAM_ERROR"
proof -
  have h: "has_getUserMedia denying_navigator"
    "getUserMedia denying_navigator
        (buildConstraints (supportedConstraints example_camera) no_options)
       = Inl (PlainError ''NotAllowedError'' ''Permission denied'')"
    "error_name (PlainError ''NotAllowedError'' ''Permission denied'') = ''NotAllowedError''"
    by (simp_all add: denying_navigator_def)
  show ?thesis
    using requestCameraAccess_permission_denied [OF h surjective_pairing, of "''err_1''" 7] h
    by simp
qed

section \<open>The QR service cache\<close>

lemma getFromCache_fresh:
  "map_of c key = Some item \<Longrightarrow> \<not> expired now item \<Longrightarrow>
   getFromCache now key c = (Some (ci_data item), c)"
  by (simp add: getFromCache_def)

lemma getFromCache_expired:
  "map_of c key = Some item \<Longrightarrow> expired now item \<Longrightarrow>
   getFromCache now key c = (None, AList.delete key c)"
  by (simp add: getFromCache_def)

lemma addToCache_lookup:
  "map_of (addToCache now key data c) key = Some \<lparr> ci_data = data, ci_timestamp = now \<rparr>"
  by (simp add: addToCache_def Let_def update_conv')

lemma generate_hit:
  assumes "validate deps (forUrl deps u opts) = []"
    and "map_of (cache svc) (getCacheKey deps (forUrl deps u opts)) = Some item"
    and "\<not> expired now item"
  shows "generateForUrl deps now later u opts svc = (Inr (ci_data item), svc)"
  using assms by (simp add: generateForUrl_def Let_def getFromCache_fresh)

lemma generate_miss:
  assumes "validate deps (forUrl deps u opts) = []"
    and "map_of (cache svc) (getCacheKey deps (forUrl deps u opts)) = Some item"
    and "expired now item"
  shows "requests (snd (generateForUrl deps now later u opts svc))
           = requests svc @ [forUrl deps u opts]
         \<and> fst (generateForUrl deps now later u opts svc)
           = generateQRCode deps (forUrl deps u opts)"
  using assms
  by (simp add: generateForUrl_def Let_def getFromCache_expired split: sum.splits)

lemma generate_requested:
  assumes "generateForUrl deps now later u opts svc = (Inr r, svc1)"
    and "requests svc1 \<noteq> requests svc"
  shows "map_of (cache svc1) (getCacheKey deps (forUrl deps u opts))
           = Some \<lparr> ci_data = r, ci_timestamp = later \<rparr>
         \<and> validate deps (forUrl deps u opts) = []
         \<and> requests svc1 = requests svc @ [forUrl deps u opts]"
  using assms
  by (auto simp: generateForUrl_def Let_def addToCache_lookup
      split: if_splits prod.splits option.splits sum.splits)

lemma expired_iff: "expired now \<lparr> ci_data = r, ci_timestamp = ts \<rparr> = (ts + 3600000 < now)"
  by (auto simp: expired_def cacheTimeout_def)

text \<open>
  C6: after a call of \<open>generateForUrl\<close> that made a request and stored its result at time
  \<open>stored\<close>, a second call for the same URL and options at a time up to one hour after
  \<open>stored\<close> returns that result and leaves the service as it is, so no second request
  is made; a call more than one hour after \<open>stored\<close> makes a new request and returns
  what that request gives.
\<close>

theorem qr_cache_hit_within_timeout:
  assumes "generateForUrl deps t0 stored u opts svc = (Inr r, svc1)"
    and "requests svc1 \<noteq> requests svc"
  shows "(t1 \<le> stored + 60 * 60 * 1000 \<longrightarrow>
            generateForUrl deps t1 later u opts svc1 = (Inr r, svc1))
         \<and> (stored + 60 * 60 * 1000 < t1 \<longrightarrow>
              requests (snd (generateForUrl deps t1 later u opts svc1))
                = requests svc1 @ [forUrl deps u opts]
              \<and> fst (generateForUrl deps t1 later u opts svc1)
                = generateQRCode deps (forUrl deps u opts))"
proof -
  let ?item = "\<lparr> ci_data = r, ci_timestamp = stored \<rparr>"
  have c: "map_of (cache svc1) (getCacheKey deps (forUrl deps u opts)) = Some ?item"
    and v: "validate deps (forUrl deps u opts) = []"
    using generate_requested [OF assms] by simp_all
  have hit: "generateForUrl deps t1 later u opts svc1 = (Inr r, svc1)"
    if "t1 \<le> stored + 60 * 60 * 1000"
    using generate_hit [OF v c, of t1 later] that by (simp add: expired_iff)
  have miss: "requests (snd (generateForUrl deps t1 later u opts svc1))
                = requests svc1 @ [forUrl deps u opts]
              \<and> fst (generateForUrl deps t1 later u opts svc1)
                = generateQRCode deps (forUrl deps u opts)"
    if "stored + 60 * 60 * 1000 < t1"
    using generate_miss [OF v c, of t1 later] that by (simp add: expired_iff)
  show ?thesis using hit miss by blast
qed

lemma example_first_call:
  "generateForUrl example_deps 0 5 ''https://a'' 256 new_service =
     (Inr ''image of https://a'',
      \<lparr> cache = [(simpleHash ''https://a'',
                  \<lparr> ci_data = ''image of https://a'', ci_timestamp = 5 \<rparr>)],
        requests = [(''https://a'', 256)] \<rparr>)"
  by (simp add: generateForUrl_def example_deps_def new_service_def getCacheKey_def
      getFromCache_def addToCache_def cacheMaxSize_def Let_def)

theorem qr_cache_hit_within_timeout_witness:
  "generateForUrl example_deps 0 5 ''https://a'' 256 new_service =
     (Inr ''image of https://a'',
      \<lparr> cache = [(simpleHash ''https://a'',
                  \<lparr> ci_data = ''image of https://a'', ci_timestamp = 5 \<rparr>)],
        requests = [(''https://a'', 256)] \<rparr>)
   \<and> requests \<lparr> cache = [(simpleHash ''https://a'',
                  \<lparr> ci_data = ''image of https://a'', ci_timestamp = 5 \<rparr>)],
        requests = [(''https://a'', 256 :: nat)] \<rparr> \<noteq> requests new_service
   \<and> requests (snd (generateForUrl example_deps 3600005 3600006 ''https://a'' 256
        (snd (generateForUrl example_deps 0 5 ''https://a'' 256 new_service))))
       = [(''https://a'', 256)]
   \<and> requests (snd (generateForUrl example_deps 3600006 3600007 ''https://a'' 256
        (snd (generateForUrl example_deps 0 5 ''https://a'' 256 new_service))))
       = [(''https://a'', 256), (''https://a'', 256)]"
proof -
  let ?svc1 = "\<lparr> cache = [(simpleHash ''https://a'',
                  \<lparr> ci_data = ''image of https://a'', ci_timestamp = 5 \<rparr>)],
        requests = [(''https://a'', 256 :: nat)] \<rparr>"
  have n: "requests ?svc1 \<noteq> requests new_service"
    by (simp add: new_service_def)
  have f: "forUrl example_deps ''https://a'' 256 = (''https://a'', 256)"
    by (simp add: example_deps_def)
  show ?thesis
    using qr_cache_hit_within_timeout [OF example_first_call n, of 3600005 3600006]
      qr_cache_hit_within_timeout [OF example_first_call n, of 3600006 3600007]
      example_first_call n f
    by simp
qed

section \<open>The QR code entity and its JSON form\<close>

lemma foldl_set_add_set: "set (foldl set_add acc xs) = set acc \<union> set xs"
  by (induction xs arbitrary: acc) (auto simp: set_add_def)

lemma foldl_set_add_distinct:
  "distinct (acc @ xs) \<Longrightarrow> foldl set_add acc xs = acc @ xs"
proof (induction xs arbitrary: acc)
  case Nil
  show ?case by simp
next
  case (Cons x xs)
  have "x \<notin> set acc" using Cons.prems by auto
  moreover have "distinct ((acc @ [x]) @ xs)" using Cons.prems by simp
  ultimately show ?case using Cons.IH [of "acc @ [x]"] by (simp add: set_add_def)
qed

lemma set_from_array_members:
  "set (set_from_array (array_from_set s)) = set s"
  by (simp add: set_from_array_def array_from_set_def foldl_set_add_set)

lemma set_from_array_inverse:
  "distinct s \<Longrightarrow> set_from_array (array_from_set s) = s"
  using foldl_set_add_distinct [of "[]" s]
  by (simp add: set_from_array_def array_from_set_def)

text \<open>
  C7: \<open>toJSON\<close> followed by \<open>fromJSON\<close> gives the entity back: the members of the unique
  user collection are the same, and the whole entity is equal to the one started from
  (its unique users being a set, a list without repetition).
\<close>

theorem QRCode_json_roundtrip:
  "set (qr_uniqueUsers (fromJSON (toJSON q))) = set (qr_uniqueUsers q)
   \<and> (distinct (qr_uniqueUsers q) \<longrightarrow> fromJSON (toJSON q) = q)"
  by (simp add: fromJSON_def toJSON_def set_from_array_members set_from_array_inverse)

theorem QRCode_json_roundtrip_witness:
  "distinct (qr_uniqueUsers example_qrcode)
   \<and> fromJSON (toJSON example_qrcode) = example_qrcode
   \<and> j_uniqueUsers (toJSON example_qrcode) = [''user_b'', ''user_a'']"
  using QRCode_json_roundtrip [of example_qrcode]
  by (simp add: example_qrcode_def toJSON_def array_from_set_def)

section \<open>The AR session phases\<close>

lemma settle_more_fuel:
  "settle env now k w = Some r \<Longrightarrow> settle env now (k + j) w = Some r"
proof (induction k arbitrary: w)
  case 0
  then show ?case by simp
next
  case (Suc k)
  show ?case
  proof (cases "ar_session (render env now w) = ar_session w")
    case True
    then show ?thesis using Suc.prems by simp
  next
    case False
    then have "settle env now k (render env now w) = Some r" using Suc.prems by simp
    then have "settle env now (k + j) (render env now w) = Some r" by (rule Suc.IH)
    then show ?thesis using False by simp
  qed
qed

text \<open>
  C9: from phase \<open>idle\<close>, a successful camera acquisition followed by a successful AR
  initialization reaches phase \<open>active\<close>, and an AR initialization failure after the
  camera was acquired reaches phase \<open>error\<close> with the camera stream stopped. Evaluated
  on a supported device: the first run ends in \<open>active\<close>. In the second the failure sets
  the phase to \<open>error\<close>, and the render of that phase unmounts the camera handler and
  stops the stream; but the cleanup created while the phase was \<open>active\<close> then calls
  \<open>endSession\<close>, so the renders end in phase \<open>idle\<close> and, with the automatic start, in
  a new session in phase \<open>requesting_camera\<close>.
\<close>

theorem ar_failure_leaves_error_phase:
  "ar_run (supported_env False) 4 0 [(1, Start), (5, CameraStarted 1), (9, ARInitialized)]
     = Some \<lparr> ar_session = example_active, rendered_session = example_active,
              cameraStream = Some 1, handler_mounted = True, streamRef = Some 1,
              stopped_streams = [] \<rparr>
   \<and> render (supported_env False) 9
        (handleARError (PlainError ''Error'' ''MindAR failed'')
           \<lparr> ar_session = example_active, rendered_session = example_active,
             cameraStream = Some 1, handler_mounted = True, streamRef = Some 1,
             stopped_streams = [] \<rparr>)
       = \<lparr> ar_session = example_ended,
           rendered_session = example_active
             \<lparr> phase := PhaseError, error := Some ''MindAR failed'',
               statistics := \<lparr> markerDetections = 0, totalSessionTime = 0,
                                errorCount = 1 \<rparr> \<rparr>,
           cameraStream = None, handler_mounted = False, streamRef = None,
           stopped_streams = [1] \<rparr>
   \<and> ar_run (supported_env False) 4 0
        [(1, Start), (5, CameraStarted 1), (9, ARFailed (PlainError ''Error'' ''MindAR failed''))]
       = Some \<lparr> ar_session = example_ended, rendered_session = example_ended,
                cameraStream = None, handler_mounted = False, streamRef = None,
                stopped_streams = [1] \<rparr>
   \<and> ar_run (supported_env True) 4 0
        [(1, Start), (5, CameraStarted 1), (9, ARFailed (PlainError ''Error'' ''MindAR failed''))]
       = Some \<lparr> ar_session = example_restarted, rendered_session = example_restarted,
                cameraStream = None, handler_mounted = True, streamRef = None,
                stopped_streams = [1] \<rparr>"
  by code_simp

end
